theory Spec2Isabelle
  imports Complex_Main
begin

section \<open>Values of the host language\<close>

text \<open>
  An exception thrown inside a request handler is a value: \<open>TypeError\<close> is what reading a
  property of \<open>undefined\<close> or \<open>null\<close> raises (the source's non-null assertions \<open>!\<close>
  are erased at run time), \<open>Thrown msg\<close> is an error raised by an upstream client.
\<close>

datatype error = TypeError | Thrown string

text \<open>
  \<open>bigint.toString()\<close>: the decimal digits, with a minus sign for a negative value.
\<close>

definition digit_char :: "nat \<Rightarrow> char" where
  "digit_char d = ''0123456789'' ! d"

fun nat_digits :: "nat \<Rightarrow> string" where
  "nat_digits n =
     (if n < 10 then [digit_char n] else nat_digits (n div 10) @ [digit_char (n mod 10)])"

declare nat_digits.simps [simp del]

definition bigint_toString :: "int \<Rightarrow> string" where
  "bigint_toString i =
     (if i < 0 then CHR ''-'' # nat_digits (nat (- i)) else nat_digits (nat i))"

text \<open>\<open>String.prototype.startsWith\<close>.\<close>

definition startsWith :: "string \<Rightarrow> string \<Rightarrow> bool" where
  "startsWith s p = (take (length p) s = p)"

section \<open>The script library\<close>

text \<open>
  The script classification, address derivation and RANK decoding come from the
  \<open>xpi-ts\<close> package, which is not part of this repository. The handlers only call it, so
  the model takes it as a parameter: a record of the functions called, each keyed by the
  script's hex string (the source first builds a \<open>Script\<close> with \<open>Script.fromBuffer\<close> or
  \<open>Script.fromHex\<close>). A call typed as nullable in the source returns an option.
  \<open>'a\<close> is the library's address object, \<open>'r\<close> its decoded RANK output.

  Three calls that \<open>toExplorerTxOutput\<close> makes outside any \<open>try\<close> can throw, and
  the exception then leaves the handler: \<open>fromBuffer\<close> is
  \<open>Script.fromBuffer(scriptBuf)\<close>, \<open>newScriptProcessor\<close> is
  \<open>new ScriptProcessor(scriptBuf)\<close>, and \<open>processScriptRANK\<close> is the method of that
  name on the processor. \<open>Inl e\<close> is the call throwing \<open>e\<close>, \<open>Inr\<close> the call
  returning; a RANK decoding that returns nothing is \<open>Inr None\<close>.
\<close>

record ('a, 'r) script_lib =
  isDataOut :: "string \<Rightarrow> bool"
  isPublicKeyHashOut :: "string \<Rightarrow> bool"
  isScriptHashOut :: "string \<Rightarrow> bool"
  isTaprootOut :: "string \<Rightarrow> bool"
  toAddress :: "string \<Rightarrow> 'a option"
  addressToString :: "'a \<Rightarrow> string"
  toXAddress :: "'a \<Rightarrow> string"
  fromBuffer :: "string \<Rightarrow> error + unit"
  newScriptProcessor :: "string \<Rightarrow> error + unit"
  processScriptRANK :: "string \<Rightarrow> error + 'r option"
  isValidAddress :: "string \<Rightarrow> bool"
  scriptFromAddress :: "string \<Rightarrow> string \<times> string"

section \<open>Indexer records\<close>

text \<open>
  \<open>TxOutput\<close>: the amount arrives as the decimal string of a 64-bit signed integer and
  every use in the source is \<open>BigInt(output.value)\<close>; the model keeps that integer.
\<close>

record tx_output =
  out_value :: int
  outputScript :: string

record tx_input =
  prevOutputScript :: "string option"
  in_value :: int

record block_meta =
  bm_height :: int
  bm_timestamp :: string

record tx =
  txid :: string
  inputs :: "tx_input list"
  outputs :: "tx_output list"
  tx_block :: "block_meta option"
  timeFirstSeen :: string

section \<open>Burn accounting\<close>

text \<open>
  \<open>getSumBurnedSats\<close>: a left fold over the outputs; an output counts when its script hex
  starts with \<open>6a\<close> and its value is above zero.
\<close>

definition burn_step :: "int \<Rightarrow> tx_output \<Rightarrow> int" where
  "burn_step acc output =
     (let v = out_value output
      in if startsWith (outputScript output) ''6a'' \<and> v > 0 then acc + v else acc)"

definition getSumBurnedSats :: "tx_output list \<Rightarrow> int" where
  "getSumBurnedSats outs = foldl burn_step 0 outs"

section \<open>Output and input enrichment\<close>

record tx_counters =
  cnt_sumBurnedSats :: int

text \<open>
  \<open>ExplorerTxOutput\<close>: the output with the two optional fields. \<open>None\<close> is a field that
  the returned object does not have.
\<close>

record 'r explorer_output =
  eo_output :: tx_output
  eo_address :: "string option"
  eo_rankOutput :: "'r option"

definition isAddressOut :: "('a, 'r) script_lib \<Rightarrow> string \<Rightarrow> bool" where
  "isAddressOut lib s = (isPublicKeyHashOut lib s \<or> isScriptHashOut lib s \<or> isTaprootOut lib s)"

text \<open>
  \<open>toExplorerTxOutput\<close>. The counter is mutated in place in the source; here the new
  counter is returned beside the output. \<open>addressOutput\<close> is the part of the body below
  the data-output block: a data output whose RANK decoding gives nothing leaves that block
  without returning and reaches it, with the counter already incremented. The script is
  built first; for a data output the counter is incremented, then the RANK processor is
  built and run. An exception thrown by one of these calls ends the function, and with
  it the request, so the counter of that request is not read again.
\<close>

definition addressOutput ::
  "('a, 'r) script_lib \<Rightarrow> tx_output \<Rightarrow> tx_counters \<Rightarrow> error + ('r explorer_output \<times> tx_counters)"
where
  "addressOutput lib output counters =
     (if isAddressOut lib (outputScript output)
      then (case toAddress lib (outputScript output) of
              None \<Rightarrow> Inl TypeError
            | Some a \<Rightarrow>
                Inr (\<lparr>eo_output = output, eo_address = Some (addressToString lib a),
                      eo_rankOutput = None\<rparr>, counters))
      else Inr (\<lparr>eo_output = output, eo_address = None, eo_rankOutput = None\<rparr>, counters))"

definition toExplorerTxOutput ::
  "('a, 'r) script_lib \<Rightarrow> tx_output \<Rightarrow> tx_counters \<Rightarrow> error + ('r explorer_output \<times> tx_counters)"
where
  "toExplorerTxOutput lib output counters =
     (case fromBuffer lib (outputScript output) of
        Inl e \<Rightarrow> Inl e
      | Inr _ \<Rightarrow>
          if isDataOut lib (outputScript output)
          then (let counters1 =
                      counters\<lparr>cnt_sumBurnedSats := cnt_sumBurnedSats counters + out_value output\<rparr>
                in case newScriptProcessor lib (outputScript output) of
                     Inl e \<Rightarrow> Inl e
                   | Inr _ \<Rightarrow>
                       (case processScriptRANK lib (outputScript output) of
                          Inl e \<Rightarrow> Inl e
                        | Inr (Some rankOutput) \<Rightarrow>
                            Inr (\<lparr>eo_output = output, eo_address = None,
                                  eo_rankOutput = Some rankOutput\<rparr>, counters1)
                        | Inr None \<Rightarrow> addressOutput lib output counters1))
          else addressOutput lib output counters)"

text \<open>
  \<open>tx.outputs.map(o => toExplorerTxOutput(o, counters))\<close>: left to right, one counter
  threaded through, stopping at the first exception.
\<close>

fun map_outputs ::
  "('a, 'r) script_lib \<Rightarrow> tx_output list \<Rightarrow> tx_counters \<Rightarrow> error + ('r explorer_output list \<times> tx_counters)"
where
  "map_outputs lib [] counters = Inr ([], counters)"
| "map_outputs lib (output # rest) counters =
     (case toExplorerTxOutput lib output counters of
        Inl e \<Rightarrow> Inl e
      | Inr (eo, counters1) \<Rightarrow>
          (case map_outputs lib rest counters1 of
             Inl e \<Rightarrow> Inl e
           | Inr (eos, counters2) \<Rightarrow> Inr (eo # eos, counters2)))"

text \<open>
  \<open>toExplorerTxInput\<close>. The result's \<open>address\<close> is a string, \<open>null\<close>, or not there at
  all when the input carries no previous output script (\<open>undefined\<close> or the empty string).
\<close>

datatype address_field = Omitted | Null | Address string

record explorer_input =
  ei_input :: tx_input
  ei_address :: address_field

definition toExplorerTxInput :: "('a, 'r) script_lib \<Rightarrow> tx_input \<Rightarrow> error + explorer_input" where
  "toExplorerTxInput lib input =
     (case prevOutputScript input of
        None \<Rightarrow> Inr \<lparr>ei_input = input, ei_address = Omitted\<rparr>
      | Some s \<Rightarrow>
          if s = [] then Inr \<lparr>ei_input = input, ei_address = Omitted\<rparr>
          else if isAddressOut lib s
          then (case toAddress lib s of
                  None \<Rightarrow> Inl TypeError
                | Some a \<Rightarrow> Inr \<lparr>ei_input = input, ei_address = Address (addressToString lib a)\<rparr>)
          else Inr \<lparr>ei_input = input, ei_address = Null\<rparr>)"

fun map_inputs :: "('a, 'r) script_lib \<Rightarrow> tx_input list \<Rightarrow> error + explorer_input list" where
  "map_inputs lib [] = Inr []"
| "map_inputs lib (i # rest) =
     (case toExplorerTxInput lib i of
        Inl e \<Rightarrow> Inl e
      | Inr ei \<Rightarrow> (case map_inputs lib rest of Inl e \<Rightarrow> Inl e | Inr eis \<Rightarrow> Inr (ei # eis)))"

section \<open>Responses\<close>

text \<open>
  \<open>sendJSON(res, data, status)\<close> and \<open>res.json(data)\<close>. An error body is
  \<open>{ error: msg }\<close>, with the transaction id echoed by the transaction endpoint.
  A handler that throws sends nothing: its result is \<open>Inl\<close> of the exception.
\<close>

datatype 'b response = Response nat 'b | JsonError nat string "string option"

definition HTTP_OK :: nat where "HTTP_OK = 200"
definition HTTP_BAD_REQUEST :: nat where "HTTP_BAD_REQUEST = 400"
definition HTTP_NOT_FOUND :: nat where "HTTP_NOT_FOUND = 404"

section \<open>Transaction lookup\<close>

record 'r explorer_tx =
  et_tx :: tx
  et_inputs :: "explorer_input list"
  et_outputs :: "'r explorer_output list"
  et_confirmations :: int
  et_sumBurnedSats :: string

datatype ('w, 'r) tx_body = RawTx 'w | ExplorerTx "'r explorer_tx"

text \<open>
  \<open>GET /tx/:txid\<close>. \<open>getRawTransaction\<close> and \<open>getBlockCount\<close> are the node RPC calls,
  \<open>chronik_tx\<close> the indexer lookup; any of them may throw, and only the indexer lookup is
  inside a \<open>try\<close>.
\<close>

definition tx_handler ::
  "('a, 'r) script_lib \<Rightarrow> (string \<Rightarrow> error + 'w) \<Rightarrow> (error + int) \<Rightarrow> (string \<Rightarrow> error + tx)
   \<Rightarrow> string \<Rightarrow> string option \<Rightarrow> error + ('w, 'r) tx_body response"
where
  "tx_handler lib getRawTransaction getBlockCount chronik_tx txid_param raw =
     (if raw = Some ''1''
      then (case getRawTransaction txid_param of
              Inl e \<Rightarrow> Inl e
            | Inr t \<Rightarrow> Inr (Response HTTP_OK (RawTx t)))
      else (case getBlockCount of
              Inl e \<Rightarrow> Inl e
            | Inr blockCount \<Rightarrow>
               (case chronik_tx txid_param of
                  Inl e \<Rightarrow> Inr (JsonError HTTP_NOT_FOUND ''transaction not found'' (Some txid_param))
                | Inr t \<Rightarrow>
                   (case map_inputs lib (inputs t) of
                      Inl e \<Rightarrow> Inl e
                    | Inr ins \<Rightarrow>
                       (case map_outputs lib (outputs t) \<lparr>cnt_sumBurnedSats = 0\<rparr> of
                          Inl e \<Rightarrow> Inl e
                        | Inr (outs, counters) \<Rightarrow>
                            Inr (Response HTTP_OK (ExplorerTx
                              \<lparr>et_tx = t, et_inputs = ins, et_outputs = outs,
                               et_confirmations =
                                 (case tx_block t of
                                    Some b \<Rightarrow> blockCount - bm_height b + 1
                                  | None \<Rightarrow> 0),
                               et_sumBurnedSats =
                                 bigint_toString (cnt_sumBurnedSats counters)\<rparr>)))))))"

section \<open>Block lookup\<close>

record block_info =
  height :: int
  hash :: string

record block =
  blockInfo :: block_info
  txs :: "tx list"

text \<open>
  The block as it is written to the response: each transaction may carry a
  \<open>sumBurnedSats\<close> field, the block a \<open>minedBy\<close> field. \<open>plain_block\<close> is the indexer's
  block written as it came, with neither.
\<close>

record burn_tx =
  bt_tx :: tx
  bt_sumBurnedSats :: "string option"

record block_json =
  bj_blockInfo :: block_info
  bj_txs :: "burn_tx list"
  bj_minedBy :: "string option"

definition plain_block :: "block \<Rightarrow> block_json" where
  "plain_block b =
     \<lparr>bj_blockInfo = blockInfo b,
      bj_txs = map (\<lambda>t. \<lparr>bt_tx = t, bt_sumBurnedSats = None\<rparr>) (txs b),
      bj_minedBy = None\<rparr>"

text \<open>
  \<open>Bitcore.Script.fromHex(block.txs[0]!.outputs[1]!.outputScript).toAddress()!.toXAddress()\<close>:
  an index past the end of an array reads \<open>undefined\<close>, and the next property access
  throws.
\<close>

definition minedBy :: "('a, 'r) script_lib \<Rightarrow> burn_tx list \<Rightarrow> error + string" where
  "minedBy lib btxs =
     (if 0 < length btxs
      then (let outs = outputs (bt_tx (btxs ! 0))
            in if 1 < length outs
               then (case toAddress lib (outputScript (outs ! 1)) of
                       None \<Rightarrow> Inl TypeError
                     | Some a \<Rightarrow> Inr (toXAddress lib a))
               else Inl TypeError)
      else Inl TypeError)"

text \<open>
  \<open>GET /block/:hashOrHeight\<close>. \<open>chronik_block\<close> is the indexer lookup: \<open>Inl msg\<close> when it
  throws an error with that message, \<open>Inr None\<close> when it returns nothing.
\<close>

definition block_handler ::
  "('a, 'r) script_lib \<Rightarrow> (string \<Rightarrow> string + block option) \<Rightarrow> string
   \<Rightarrow> error + block_json response"
where
  "block_handler lib chronik_block hashOrHeight =
     (if hashOrHeight = [] then Inr (JsonError HTTP_BAD_REQUEST ''hashOrHeight is required'' None)
      else (case chronik_block hashOrHeight of
              Inl msg \<Rightarrow> Inr (JsonError HTTP_NOT_FOUND msg None)
            | Inr None \<Rightarrow> Inr (JsonError HTTP_NOT_FOUND ''block not found'' None)
            | Inr (Some b) \<Rightarrow>
                if height (blockInfo b) = 0 then Inr (Response HTTP_OK (plain_block b))
                else (let btxs = map (\<lambda>t. \<lparr>bt_tx = t,
                                   bt_sumBurnedSats =
                                     Some (bigint_toString (getSumBurnedSats (outputs t)))\<rparr>)
                                 (txs b)
                      in case minedBy lib btxs of
                           Inl e \<Rightarrow> Inl e
                         | Inr m \<Rightarrow>
                             Inr (Response HTTP_OK
                               \<lparr>bj_blockInfo = blockInfo b, bj_txs = btxs,
                                bj_minedBy = Some m\<rparr>))))"

section \<open>Numbers of the host language\<close>

text \<open>
  \<open>Number(query.page)\<close> and \<open>Number(query.pageSize)\<close> are doubles: not-a-number (what
  \<open>Number\<close> gives for \<open>undefined\<close> and for a string that is not a numeric literal), a
  finite value, or an infinity. A finite double is kept as the rational number that it
  stands for; both zeros are \<open>Num 0\<close>.
\<close>

datatype js_number = NaN | Num rat | PosInf | NegInf

fun truthy :: "js_number \<Rightarrow> bool" where
  "truthy NaN = False"
| "truthy (Num r) = (r \<noteq> 0)"
| "truthy PosInf = True"
| "truthy NegInf = True"

text \<open>\<open>a || b\<close> on numbers.\<close>

definition js_or :: "js_number \<Rightarrow> js_number \<Rightarrow> js_number" where
  "js_or a b = (if truthy a then a else b)"

text \<open>\<open>a > b\<close>: false whenever an operand is not-a-number.\<close>

fun js_gt :: "js_number \<Rightarrow> js_number \<Rightarrow> bool" where
  "js_gt (Num a) (Num b) = (a > b)"
| "js_gt (Num a) NegInf = True"
| "js_gt PosInf (Num b) = True"
| "js_gt PosInf NegInf = True"
| "js_gt _ _ = False"

fun js_neg :: "js_number \<Rightarrow> js_number" where
  "js_neg NaN = NaN"
| "js_neg (Num a) = Num (- a)"
| "js_neg PosInf = NegInf"
| "js_neg NegInf = PosInf"

text \<open>
  The result of an arithmetic operation on finite doubles is the exact result rounded to
  the nearest double, a tie going to the even significand (IEEE 754 binary64). A double
  is a whole multiple of \<open>2 ^ e\<close> with a significand below \<open>2 ^ 53\<close> in magnitude, where
  \<open>e\<close> is 52 below the binade of the value and at least \<open>-1074\<close>; a rounded value
  beyond \<open>Number.MAX_VALUE\<close>, which is \<open>2 ^ 1024 - 2 ^ 971\<close>, is an infinity.
  \<open>bit_length n\<close> is the number of binary digits of a positive integer, \<open>binade x\<close>
  the exponent \<open>k\<close> with \<open>2 ^ k \<le> \<bar>x\<bar> < 2 ^ (k + 1)\<close> for a value other than zero.
\<close>

definition pow2 :: "int \<Rightarrow> rat" where
  "pow2 e = (if 0 \<le> e then 2 ^ nat e else 1 / 2 ^ nat (- e))"

function bit_length :: "int \<Rightarrow> int" where
  "bit_length n = (if n \<le> 0 then 0 else 1 + bit_length (n div 2))"
  by auto

termination
  by (relation "measure nat") auto

declare bit_length.simps [simp del]

definition binade :: "rat \<Rightarrow> int" where
  "binade x =
     (let k = bit_length \<bar>fst (quotient_of x)\<bar> - bit_length (snd (quotient_of x))
      in if pow2 k \<le> \<bar>x\<bar> then k else k - 1)"

definition round_half_even :: "rat \<Rightarrow> int" where
  "round_half_even q =
     (let f = \<lfloor>q\<rfloor>; d = q - of_int f
      in if d < 1 / 2 then f else if 1 / 2 < d then f + 1 else if even f then f else f + 1)"

definition MAX_VALUE :: rat where
  "MAX_VALUE = 179769313486231570814527423731704356798070567525844996598917476803157260780028538760589558632766878171540458953514382464234321326889464182768467546703537516986049910576551282076245490090389328944075868508455133942304583236903222948165808559332123348274797826204144723168738177180919299881250404026184124858368"

definition to_double :: "rat \<Rightarrow> js_number" where
  "to_double x =
     (if x = 0 then Num 0
      else (let e = max (binade x - 52) (- 1074);
                y = of_int (round_half_even (x / pow2 e)) * pow2 e
            in if MAX_VALUE < y then PosInf else if y < - MAX_VALUE then NegInf else Num y))"

text \<open>\<open>a + b\<close>, \<open>a - b\<close> and \<open>a * b\<close> on numbers.\<close>

fun js_add :: "js_number \<Rightarrow> js_number \<Rightarrow> js_number" where
  "js_add (Num a) (Num b) = to_double (a + b)"
| "js_add NaN _ = NaN"
| "js_add _ NaN = NaN"
| "js_add PosInf NegInf = NaN"
| "js_add NegInf PosInf = NaN"
| "js_add PosInf _ = PosInf"
| "js_add _ PosInf = PosInf"
| "js_add NegInf _ = NegInf"
| "js_add _ NegInf = NegInf"

definition js_sub :: "js_number \<Rightarrow> js_number \<Rightarrow> js_number" where
  "js_sub a b = js_add a (js_neg b)"

definition inf_times :: "bool \<Rightarrow> rat \<Rightarrow> js_number" where
  "inf_times positive b =
     (if b = 0 then NaN else if (b > 0) = positive then PosInf else NegInf)"

fun js_mul :: "js_number \<Rightarrow> js_number \<Rightarrow> js_number" where
  "js_mul (Num a) (Num b) = to_double (a * b)"
| "js_mul NaN _ = NaN"
| "js_mul _ NaN = NaN"
| "js_mul PosInf (Num b) = inf_times True b"
| "js_mul NegInf (Num b) = inf_times False b"
| "js_mul (Num a) PosInf = inf_times True a"
| "js_mul (Num a) NegInf = inf_times False a"
| "js_mul PosInf PosInf = PosInf"
| "js_mul NegInf NegInf = PosInf"
| "js_mul PosInf NegInf = NegInf"
| "js_mul NegInf PosInf = NegInf"

section \<open>Pagination\<close>

definition DEFAULT_PAGE_SIZE :: rat where "DEFAULT_PAGE_SIZE = 10"
definition MAX_PAGE_SIZE :: rat where "MAX_PAGE_SIZE = 40"

text \<open>
  The first lines of the address and the block-list handlers, the same in both. The
  argument is the value of \<open>Number(query.page)\<close>, of \<open>Number(query.pageSize)\<close>.
\<close>

definition pageNum :: "js_number \<Rightarrow> js_number" where
  "pageNum page = js_or page (Num 1)"

definition pageSizeNum :: "js_number \<Rightarrow> js_number" where
  "pageSizeNum pageSize =
     (let n = js_or pageSize (Num DEFAULT_PAGE_SIZE)
      in if js_gt n (Num MAX_PAGE_SIZE) then Num MAX_PAGE_SIZE else n)"

section \<open>Address history\<close>

record history_page =
  hp_txs :: "tx list"
  hp_numPages :: int

record utxo =
  utxo_value :: int

record script_utxos =
  su_utxos :: "utxo list"

record address_response =
  ar_scriptType :: string
  ar_scriptPayload :: string
  ar_balance :: "string option"
  ar_lastSeen :: "string option"
  ar_txs :: "burn_tx list"
  ar_numPages :: int

definition lastSeen :: "tx list \<Rightarrow> string option" where
  "lastSeen ts =
     (case ts of
        [] \<Rightarrow> None
      | t # _ \<Rightarrow> Some (case tx_block t of Some b \<Rightarrow> bm_timestamp b | None \<Rightarrow> timeFirstSeen t))"

text \<open>
  \<open>GET /address/:address\<close>. \<open>chronik_history\<close> is
  \<open>chronikClient.script(type, payload).history(page, size)\<close>, inside a \<open>try\<close>;
  \<open>chronik_utxos\<close> is \<open>.utxos()\<close>, outside any.
\<close>

definition address_handler ::
  "('a, 'r) script_lib
   \<Rightarrow> (string \<Rightarrow> string \<Rightarrow> js_number \<Rightarrow> js_number \<Rightarrow> string + history_page)
   \<Rightarrow> (string \<Rightarrow> string \<Rightarrow> error + script_utxos list)
   \<Rightarrow> string \<Rightarrow> js_number \<Rightarrow> js_number \<Rightarrow> string option
   \<Rightarrow> error + address_response response"
where
  "address_handler lib chronik_history chronik_utxos address page pageSize includeBalance =
     (if address = [] then Inr (JsonError HTTP_BAD_REQUEST ''address is required'' None)
      else if \<not> isValidAddress lib address
      then Inr (JsonError HTTP_BAD_REQUEST ''invalid address'' None)
      else (let scriptType = fst (scriptFromAddress lib address);
                scriptPayload = snd (scriptFromAddress lib address)
            in case chronik_history scriptType scriptPayload
                      (if js_gt (pageNum page) (Num 0) then js_sub (pageNum page) (Num 1) else Num 0)
                      (pageSizeNum pageSize) of
                 Inl msg \<Rightarrow> Inr (JsonError HTTP_NOT_FOUND msg None)
               | Inr history \<Rightarrow>
                  (let data =
                         \<lparr>ar_scriptType = scriptType, ar_scriptPayload = scriptPayload,
                          ar_balance = None, ar_lastSeen = lastSeen (hp_txs history),
                          ar_txs = map (\<lambda>t. \<lparr>bt_tx = t,
                                        bt_sumBurnedSats =
                                          Some (bigint_toString (getSumBurnedSats (outputs t)))\<rparr>)
                                      (hp_txs history),
                          ar_numPages = hp_numPages history\<rparr>
                   in if includeBalance = Some ''1''
                      then (case chronik_utxos scriptType scriptPayload of
                              Inl e \<Rightarrow> Inl e
                            | Inr [] \<Rightarrow> Inr (Response HTTP_OK data)
                            | Inr (su # _) \<Rightarrow>
                                Inr (Response HTTP_OK
                                  (data\<lparr>ar_balance :=
                                     Some (bigint_toString
                                       (foldl (\<lambda>acc u. acc + utxo_value u) 0 (su_utxos su)))\<rparr>)))
                      else Inr (Response HTTP_OK data))))"

section \<open>Block range listing\<close>

record blocks_response =
  br_blocks :: "block_info list"
  br_tipHeight :: int

text \<open>
  The two heights passed to \<open>chronikClient.blocks\<close>, from the tip height and the two
  numbers above. The tip height is a whole number that the indexer sends as a number.
\<close>

definition startHeight :: "int \<Rightarrow> js_number \<Rightarrow> js_number \<Rightarrow> js_number" where
  "startHeight tipHeight pn psn = js_sub (Num (of_int tipHeight)) (js_mul psn pn)"

definition endHeight :: "int \<Rightarrow> js_number \<Rightarrow> js_number \<Rightarrow> js_number" where
  "endHeight tipHeight pn psn =
     js_add (startHeight tipHeight pn psn)
       (if js_gt psn (Num MAX_PAGE_SIZE) then Num MAX_PAGE_SIZE else psn)"

definition firstHeight :: "int \<Rightarrow> js_number \<Rightarrow> js_number \<Rightarrow> js_number" where
  "firstHeight tipHeight pn psn =
     (if js_gt (js_add (startHeight tipHeight pn psn) (Num 1)) (Num 0)
      then js_add (startHeight tipHeight pn psn) (Num 1) else Num 1)"

text \<open>
  \<open>GET /blocks\<close>. \<open>blockchainInfo\<close> gives the tip height, \<open>chronik_blocks\<close> the blocks
  between two heights; neither call is inside a \<open>try\<close>.
\<close>

definition blocks_handler ::
  "(error + int) \<Rightarrow> (js_number \<Rightarrow> js_number \<Rightarrow> error + block_info list)
   \<Rightarrow> js_number \<Rightarrow> js_number \<Rightarrow> error + blocks_response response"
where
  "blocks_handler blockchainInfo chronik_blocks page pageSize =
     (case blockchainInfo of
        Inl e \<Rightarrow> Inl e
      | Inr tipHeight \<Rightarrow>
          (case chronik_blocks (firstHeight tipHeight (pageNum page) (pageSizeNum pageSize))
                               (endHeight tipHeight (pageNum page) (pageSizeNum pageSize)) of
             Inl e \<Rightarrow> Inl e
           | Inr blocks \<Rightarrow>
               Inr (Response HTTP_OK \<lparr>br_blocks = rev blocks, br_tipHeight = tipHeight\<rparr>)))"

section \<open>Network overview\<close>

record geoip_data =
  country :: string
  city :: string

record geoip_response =
  success :: bool
  status :: string
  ip :: string
  data :: geoip_data

text \<open>
  \<open>PeerInfo\<close>: the address as the node reports it, the optional geolocation, and
  \<open>peer_rest\<close> for the fields that the handler copies without reading.
\<close>

record peer =
  addr :: string
  geoip :: "geoip_data option"
  peer_rest :: string

definition is_digit :: "char \<Rightarrow> bool" where
  "is_digit c = (c \<in> set ''0123456789'')"

definition is_hex :: "char \<Rightarrow> bool" where
  "is_hex c = (c \<in> set ''0123456789abcdefABCDEF'')"

text \<open>
  The first pattern,
  \<^verbatim>\<open>/^(127\.|10\.|192\.168\.|172\.(1[6-9]|2[0-9]|3[0-1])\.|169\.254\.)/\<close>:
  a test on the start of the string.
\<close>

definition match_172 :: "string \<Rightarrow> bool" where
  "match_172 s =
     (startsWith s ''172.'' \<and>
      (case drop 4 s of
         c1 # c2 # c3 # _ \<Rightarrow>
           ((c1 = CHR ''1'' \<and> c2 \<in> set ''6789'') \<or>
            (c1 = CHR ''2'' \<and> is_digit c2) \<or>
            (c1 = CHR ''3'' \<and> c2 \<in> set ''01'')) \<and> c3 = CHR ''.''
       | _ \<Rightarrow> False))"

definition match_private_ipv4 :: "string \<Rightarrow> bool" where
  "match_private_ipv4 s =
     (startsWith s ''127.'' \<or> startsWith s ''10.'' \<or> startsWith s ''192.168.'' \<or>
      match_172 s \<or> startsWith s ''169.254.'')"

text \<open>
  The second pattern,
  \<^verbatim>\<open>/^(::1$|[fF][cCdD][0-9a-fA-F]{2}:|[fF][eE][89aAbB][0-9a-fA-F]:)/\<close>:
  the whole string \<open>::1\<close>, or one of two five-character starts.
\<close>

definition match_private_ipv6 :: "string \<Rightarrow> bool" where
  "match_private_ipv6 s =
     (s = ''::1'' \<or>
      (case s of
         c1 # c2 # c3 # c4 # c5 # _ \<Rightarrow>
           (c1 \<in> set ''fF'' \<and> c2 \<in> set ''cCdD'' \<and> is_hex c3 \<and> is_hex c4 \<and> c5 = CHR '':'') \<or>
           (c1 \<in> set ''fF'' \<and> c2 \<in> set ''eE'' \<and> c3 \<in> set ''89aAbB'' \<and> is_hex c4 \<and>
            c5 = CHR '':'')
       | _ \<Rightarrow> False))"

text \<open>
  \<^verbatim>\<open>const [ip] = peer.addr.split(/\:\d{1,5}$/)\<close>: the text before the leftmost place
  where a colon is followed by one to five digits and then the end of the string; the
  whole string when there is no such place.
\<close>

definition port_digits :: "string \<Rightarrow> bool" where
  "port_digits cs = (1 \<le> length cs \<and> length cs \<le> 5 \<and> list_all is_digit cs)"

fun strip_port :: "string \<Rightarrow> string" where
  "strip_port [] = []"
| "strip_port (c # cs) = (if c = CHR '':'' \<and> port_digits cs then [] else c # strip_port cs)"

text \<open>
  The two tests at the head of the loop body that end with \<open>continue\<close>: one of the
  patterns matches the reported address, or nothing is left of it before the port.
\<close>

definition skipped :: "peer \<Rightarrow> bool" where
  "skipped p =
     (match_private_ipv4 (addr p) \<or> match_private_ipv6 (addr p) \<or> strip_port (addr p) = [])"

text \<open>
  The state that outlives a request: \<open>GEOIP_CACHE\<close>. \<open>gs_calls\<close> is not in the source: it
  records, in order, the address of every request sent to the geolocation service, so
  that statements about those requests can be made. \<open>fetch n ip\<close> is the outcome of the
  request for \<open>ip\<close> when \<open>n\<close> requests have been sent before it: \<open>Inl\<close> when \<open>fetch\<close> or
  \<open>response.json()\<close> throws, the parsed body otherwise.
\<close>

record geo_state =
  gs_cache :: "string \<rightharpoonup> geoip_response"
  gs_calls :: "string list"

text \<open>
  The loop over the peers of \<open>GET /overview\<close>, with the list \<open>peers\<close> built so far.
  An exception leaves the loop and the handler; what was written to the cache before stays.
\<close>

fun overview_peers ::
  "(nat \<Rightarrow> string \<Rightarrow> error + geoip_response) \<Rightarrow> peer list \<Rightarrow> peer list \<Rightarrow> geo_state
   \<Rightarrow> (error + peer list) \<times> geo_state"
where
  "overview_peers fetch [] peers st = (Inr peers, st)"
| "overview_peers fetch (p # rest) peers st =
     (if match_private_ipv4 (addr p) \<or> match_private_ipv6 (addr p)
      then overview_peers fetch rest peers st
      else if strip_port (addr p) = [] then overview_peers fetch rest peers st
      else (case gs_cache st (strip_port (addr p)) of
              Some cached \<Rightarrow>
                overview_peers fetch rest
                  (peers @ [p\<lparr>addr := strip_port (addr p), geoip := Some (data cached)\<rparr>]) st
            | None \<Rightarrow>
               (case fetch (length (gs_calls st)) (strip_port (addr p)) of
                  Inl e \<Rightarrow> (Inl e, st\<lparr>gs_calls := gs_calls st @ [strip_port (addr p)]\<rparr>)
                | Inr json \<Rightarrow>
                    if success json
                    then overview_peers fetch rest
                           (peers @ [p\<lparr>addr := strip_port (addr p), geoip := Some (data json)\<rparr>])
                           \<lparr>gs_cache = (gs_cache st)(strip_port (addr p) \<mapsto> json),
                            gs_calls = gs_calls st @ [strip_port (addr p)]\<rparr>
                    else overview_peers fetch rest peers
                           (st\<lparr>gs_calls := gs_calls st @ [strip_port (addr p)]\<rparr>))))"

record 'm overview_response =
  ov_miningInfo :: 'm
  ov_peerInfo :: "peer list"

text \<open>
  \<open>GET /overview\<close>: \<open>getPeerInfo\<close> and \<open>getMiningInfo\<close> are the node RPC calls. Nothing in
  this handler is inside a \<open>try\<close>.
\<close>

definition overview_handler ::
  "(error + peer list) \<Rightarrow> (error + 'm) \<Rightarrow> (nat \<Rightarrow> string \<Rightarrow> error + geoip_response)
   \<Rightarrow> geo_state \<Rightarrow> (error + 'm overview_response response) \<times> geo_state"
where
  "overview_handler getPeerInfo getMiningInfo fetch st =
     (case getPeerInfo of
        Inl e \<Rightarrow> (Inl e, st)
      | Inr peerInfo \<Rightarrow>
         (case overview_peers fetch peerInfo [] st of
            (Inl e, st1) \<Rightarrow> (Inl e, st1)
          | (Inr peers, st1) \<Rightarrow>
             (case getMiningInfo of
                Inl e \<Rightarrow> (Inl e, st1)
              | Inr miningInfo \<Rightarrow>
                  (Inr (Response HTTP_OK \<lparr>ov_miningInfo = miningInfo, ov_peerInfo = peers\<rparr>),
                   st1))))"

text \<open>
  The process serving one \<open>/overview\<close> request after another: each request comes with
  what the node answers to its two RPC calls; the cache and the service are shared.
\<close>

fun run_overviews ::
  "(nat \<Rightarrow> string \<Rightarrow> error + geoip_response) \<Rightarrow> ((error + peer list) \<times> (error + 'm)) list
   \<Rightarrow> geo_state \<Rightarrow> (error + 'm overview_response response) list \<times> geo_state"
where
  "run_overviews fetch [] st = ([], st)"
| "run_overviews fetch (rq # rqs) st =
     (case overview_handler (fst rq) (snd rq) fetch st of
        (res, st1) \<Rightarrow>
          (case run_overviews fetch rqs st1 of (ress, st2) \<Rightarrow> (res # ress, st2)))"

section \<open>Burn total as specified\<close>

text \<open>
  The specification's wording of the burn total: the sum of the values of exactly those
  outputs whose script is data-carrying and whose value is strictly positive.
  \<open>dataCarrying\<close> is the test for a data-carrying script.
\<close>

definition spec_sumBurnedSats :: "(string \<Rightarrow> bool) \<Rightarrow> tx_output list \<Rightarrow> int" where
  "spec_sumBurnedSats dataCarrying outs =
     sum_list (map out_value
       (filter (\<lambda>output. dataCarrying (outputScript output) \<and> out_value output > 0) outs))"

text \<open>The \<open>sumBurnedSats\<close> field of what the transaction endpoint sends, if it sends one.\<close>

definition tx_sumBurnedSats :: "error + ('w, 'r) tx_body response \<Rightarrow> string option" where
  "tx_sumBurnedSats res =
     (case res of
        Inr (Response _ (ExplorerTx e)) \<Rightarrow> Some (et_sumBurnedSats e)
      | _ \<Rightarrow> None)"

section \<open>Concrete inputs for evaluation\<close>

text \<open>
  Modelled from the spec: the script library (\<open>xpi-ts\<close>) is outside the repository. This
  instance follows the specification's classification: a data-carrying script begins with
  the null-data opcode \<open>6a\<close>; the address types are pay-to-public-key-hash,
  pay-to-script-hash and pay-to-taproot, recognised here by their fixed opcodes and
  lengths. A readable string stands for the library's address encoding, and a RANK
  payload is recognised by its four-byte tag. Its RANK processor cannot be built on a
  script too short to hold the tag and a payload: on fewer than eight bytes the
  constructor throws. No other call of this instance throws. The instance is used only
  to run the handlers on concrete records.
\<close>

definition sample_lib :: "(string, string) script_lib" where
  "sample_lib =
     \<lparr>isDataOut = (\<lambda>s. startsWith s ''6a''),
      isPublicKeyHashOut = (\<lambda>s. startsWith s ''76a914'' \<and> length s = 50),
      isScriptHashOut = (\<lambda>s. startsWith s ''a914'' \<and> length s = 46),
      isTaprootOut = (\<lambda>s. startsWith s ''625121'' \<and> length s = 72),
      toAddress = (\<lambda>s. if startsWith s ''76a914'' \<and> length s = 50 then Some (take 40 (drop 6 s))
                        else if startsWith s ''a914'' \<and> length s = 46 then Some (take 40 (drop 4 s))
                        else if startsWith s ''625121'' \<and> length s = 72 then Some (take 66 (drop 6 s))
                        else None),
      addressToString = (\<lambda>a. ''lotus_'' @ a),
      toXAddress = (\<lambda>a. ''lotus_'' @ a),
      fromBuffer = (\<lambda>s. Inr ()),
      newScriptProcessor =
        (\<lambda>s. if length s < 16 then Inl (Thrown ''offset out of range'') else Inr ()),
      processScriptRANK =
        (\<lambda>s. Inr (if startsWith s ''6a0452414e4b'' then Some (drop 12 s) else None)),
      isValidAddress = (\<lambda>a. startsWith a ''lotus_''),
      scriptFromAddress = (\<lambda>a. (''p2pkh'', drop 6 a))\<rparr>"

definition p2pkh_script :: string where
  "p2pkh_script = ''76a914'' @ replicate 40 CHR ''1'' @ ''88ac''"

text \<open>
  Outputs: a data output that pushes the tag \<open>TEST\<close> and 32 zero bytes, a data output
  that pushes the tag \<open>RANK\<close> and a payload, a data output that pushes only the two
  bytes \<open>hi\<close>, and a payment to a public-key hash.
\<close>

definition data_output :: "int \<Rightarrow> tx_output" where
  "data_output v =
     \<lparr>out_value = v, outputScript = ''6a0454455354'' @ ''20'' @ replicate 64 CHR ''0''\<rparr>"

definition rank_output :: "int \<Rightarrow> tx_output" where
  "rank_output v =
     \<lparr>out_value = v, outputScript = ''6a0452414e4b510101'' @ ''10'' @ replicate 32 CHR ''a''\<rparr>"


definition pay_output :: "int \<Rightarrow> tx_output" where
  "pay_output v = \<lparr>out_value = v, outputScript = p2pkh_script\<rparr>"

definition sample_tx :: "tx_output list \<Rightarrow> tx" where
  "sample_tx outs =
     \<lparr>txid = ''t1'', inputs = [], outputs = outs,
      tx_block = Some \<lparr>bm_height = 7, bm_timestamp = ''1700000000''\<rparr>,
      timeFirstSeen = ''1699999990''\<rparr>"

definition sample_block :: "int \<Rightarrow> tx list \<Rightarrow> block" where
  "sample_block h ts = \<lparr>blockInfo = \<lparr>height = h, hash = ''00ab''\<rparr>, txs = ts\<rparr>"

text \<open>
  An indexer over a chain of the heights \<open>0\<close> to \<open>tip\<close>: it answers with the blocks whose
  height lies between the two numbers, lowest first.
\<close>

definition sample_chronik_blocks :: "int \<Rightarrow> js_number \<Rightarrow> js_number \<Rightarrow> error + block_info list" where
  "sample_chronik_blocks tip lo hi =
     Inr (map (\<lambda>h. \<lparr>height = h, hash = bigint_toString h\<rparr>)
            (filter (\<lambda>h. \<not> js_gt lo (Num (of_int h)) \<and> \<not> js_gt (Num (of_int h)) hi) [0..tip]))"

text \<open>
  A geolocation service: \<open>quiet_fetch\<close> always answers, and its answer for \<open>9.9.9.9\<close> is
  an unsuccessful one; \<open>failing_fetch\<close> throws on the request for \<open>8.8.8.8\<close>.
\<close>

definition geo_answer :: "bool \<Rightarrow> string \<Rightarrow> geoip_response" where
  "geo_answer ok a =
     \<lparr>success = ok, status = (if ok then ''OK'' else ''Bad Request''), ip = a,
      data = \<lparr>country = ''Netherlands'', city = ''Amsterdam''\<rparr>\<rparr>"

definition quiet_fetch :: "nat \<Rightarrow> string \<Rightarrow> error + geoip_response" where
  "quiet_fetch n a = Inr (geo_answer (a \<noteq> ''9.9.9.9'') a)"

definition failing_fetch :: "nat \<Rightarrow> string \<Rightarrow> error + geoip_response" where
  "failing_fetch n a = (if a = ''8.8.8.8'' then Inl (Thrown ''fetch failed'') else quiet_fetch n a)"

text \<open>
  A service whose first answer is an unsuccessful one and whose later answers are
  successful.
\<close>

definition flaky_fetch :: "nat \<Rightarrow> string \<Rightarrow> error + geoip_response" where
  "flaky_fetch n a = Inr (geo_answer (0 < n) a)"

definition sample_peer :: "string \<Rightarrow> peer" where
  "sample_peer a = \<lparr>addr = a, geoip = None, peer_rest = ''inbound''\<rparr>"

definition listed_peer :: "string \<Rightarrow> peer" where
  "listed_peer a = \<lparr>addr = a, geoip = Some (data (geo_answer True a)), peer_rest = ''inbound''\<rparr>"

definition fresh_geo_state :: geo_state where
  "fresh_geo_state = \<lparr>gs_cache = Map.empty, gs_calls = []\<rparr>"

definition warm_geo_state :: geo_state where
  "warm_geo_state =
     \<lparr>gs_cache = [''1.1.1.1'' \<mapsto> geo_answer True ''1.1.1.1''], gs_calls = [''1.1.1.1'']\<rparr>"

text \<open>
  Upstream services that answer from a fixed record: a node that returns the raw
  transaction as text, an indexer that knows one transaction, one block, one page of
  history and no unspent outputs.
\<close>

definition node_raw :: "string \<Rightarrow> error + string" where
  "node_raw i = Inr (''raw:'' @ i)"

definition indexer_tx :: "tx \<Rightarrow> string \<Rightarrow> error + tx" where
  "indexer_tx t i = (if i = txid t then Inr t else Inl (Thrown ''not found''))"

definition indexer_block :: "block \<Rightarrow> string \<Rightarrow> string + block option" where
  "indexer_block b h =
     (if h = hash (blockInfo b) \<or> h = bigint_toString (height (blockInfo b))
      then Inr (Some b) else Inl ''block not found'')"

definition indexer_history ::
  "tx list \<Rightarrow> string \<Rightarrow> string \<Rightarrow> js_number \<Rightarrow> js_number \<Rightarrow> string + history_page" where
  "indexer_history ts scriptType scriptPayload pageOffset pageLength = Inr \<lparr>hp_txs = ts, hp_numPages = 1\<rparr>"

definition indexer_utxos :: "string \<Rightarrow> string \<Rightarrow> error + script_utxos list" where
  "indexer_utxos scriptType scriptPayload = Inr []"

text \<open>
  The specification's example transaction: a data output of value 100 and a payment of
  value 500.
\<close>

definition example_outputs :: "tx_output list" where
  "example_outputs = [data_output 100, pay_output 500]"

definition example_burn_tx :: burn_tx where
  "example_burn_tx = \<lparr>bt_tx = sample_tx example_outputs, bt_sumBurnedSats = Some ''100''\<rparr>"

definition example_address_body :: address_response where
  "example_address_body =
     \<lparr>ar_scriptType = ''p2pkh'', ar_scriptPayload = ''abc'', ar_balance = None,
      ar_lastSeen = Some ''1700000000'', ar_txs = [example_burn_tx], ar_numPages = 1\<rparr>"

definition example_block_body :: block_json where
  "example_block_body =
     \<lparr>bj_blockInfo = \<lparr>height = 7, hash = ''00ab''\<rparr>, bj_txs = [example_burn_tx],
      bj_minedBy = Some (''lotus_'' @ replicate 40 CHR ''1'')\<rparr>"

text \<open>
  An output whose script is none of the recognised kinds, and a library whose address
  derivation gives nothing.
\<close>

definition bare_output :: "int \<Rightarrow> tx_output" where
  "bare_output v = \<lparr>out_value = v, outputScript = ''51''\<rparr>"

definition mute_lib :: "(string, string) script_lib" where
  "mute_lib = sample_lib\<lparr>toAddress := (\<lambda>s. None)\<rparr>"

section \<open>Burn accounting: results\<close>

lemma foldl_burn_step:
  "foldl burn_step acc outs = acc + spec_sumBurnedSats (\<lambda>s. startsWith s ''6a'') outs"
  by (induction outs arbitrary: acc) (simp_all add: burn_step_def spec_sumBurnedSats_def Let_def)

lemma getSumBurnedSats_spec:
  "getSumBurnedSats outs = spec_sumBurnedSats (\<lambda>s. startsWith s ''6a'') outs"
  by (simp add: getSumBurnedSats_def foldl_burn_step)

lemma addressOutput_counters:
  "addressOutput lib output c = Inr (eo, c') \<Longrightarrow> c' = c"
  by (auto simp: addressOutput_def split: if_splits option.splits)

lemma toExplorerTxOutput_counters:
  assumes "toExplorerTxOutput lib output c = Inr (eo, c')"
  shows "cnt_sumBurnedSats c' =
           cnt_sumBurnedSats c +
           (if isDataOut lib (outputScript output) then out_value output else 0)"
  using assms
  by (auto simp: toExplorerTxOutput_def Let_def split: if_splits option.splits sum.splits
           dest!: addressOutput_counters)

text \<open>
  The counter after the map: every output that the library takes for a data output adds
  its value, whatever its sign.
\<close>

lemma map_outputs_counters:
  "map_outputs lib outs c = Inr (eos, c') \<Longrightarrow>
     cnt_sumBurnedSats c' =
       cnt_sumBurnedSats c +
       sum_list (map out_value (filter (\<lambda>output. isDataOut lib (outputScript output)) outs))"
proof (induction outs arbitrary: c eos)
  case Nil
  then show ?case by simp
next
  case (Cons out rest)
  from Cons.prems obtain eo c1 eos1 where
    step: "toExplorerTxOutput lib out c = Inr (eo, c1)" and
    rest: "map_outputs lib rest c1 = Inr (eos1, c')"
    by (auto split: sum.splits prod.splits)
  show ?case
    using Cons.IH [OF rest] toExplorerTxOutput_counters [OF step] by simp
qed

lemma nonneg_data_sum:
  "\<forall>output \<in> set outs. dataCarrying (outputScript output) \<longrightarrow> 0 \<le> out_value output \<Longrightarrow>
     sum_list (map out_value (filter (\<lambda>output. dataCarrying (outputScript output)) outs)) =
     spec_sumBurnedSats dataCarrying outs"
  by (induction outs) (auto simp: spec_sumBurnedSats_def)

lemma spec_sumBurnedSats_cong:
  "\<forall>output \<in> set outs. P (outputScript output) = Q (outputScript output) \<Longrightarrow>
     spec_sumBurnedSats P outs = spec_sumBurnedSats Q outs"
  by (induction outs) (auto simp: spec_sumBurnedSats_def)

lemma spec_sumBurnedSats_none:
  "\<forall>output \<in> set outs. \<not> dataCarrying (outputScript output) \<Longrightarrow>
     spec_sumBurnedSats dataCarrying outs = 0"
  by (induction outs) (auto simp: spec_sumBurnedSats_def)

lemma bigint_toString_0: "bigint_toString 0 = ''0''"
  by (simp add: bigint_toString_def nat_digits.simps digit_char_def)

lemma tx_handler_sum:
  assumes "chronik_tx txid_param = Inr t"
      and "tx_sumBurnedSats (tx_handler lib getRawTransaction getBlockCount chronik_tx txid_param raw) = Some s"
  shows "s = bigint_toString
               (sum_list (map out_value
                  (filter (\<lambda>output. isDataOut lib (outputScript output)) (outputs t))))"
  using assms
  by (auto simp: tx_sumBurnedSats_def tx_handler_def split: if_splits sum.splits prod.splits
      dest!: map_outputs_counters)

lemma block_handler_sum:
  assumes "block_handler lib chronik_block hashOrHeight = Inr (Response code body)"
      and "height (bj_blockInfo body) \<noteq> 0"
      and "bt \<in> set (bj_txs body)"
  shows "bt_sumBurnedSats bt =
           Some (bigint_toString
                  (spec_sumBurnedSats (\<lambda>s. startsWith s ''6a'') (outputs (bt_tx bt))))"
  using assms
  by (auto simp: block_handler_def plain_block_def Let_def getSumBurnedSats_spec
      split: if_splits sum.splits option.splits)

lemma address_handler_sum:
  assumes "address_handler lib chronik_history chronik_utxos address page pageSize includeBalance =
             Inr (Response code body)"
      and "bt \<in> set (ar_txs body)"
  shows "bt_sumBurnedSats bt =
           Some (bigint_toString
                  (spec_sumBurnedSats (\<lambda>s. startsWith s ''6a'') (outputs (bt_tx bt))))"
  using assms
  by (auto simp: address_handler_def Let_def getSumBurnedSats_spec
      split: if_splits sum.splits option.splits list.splits)

text \<open>
  C1. Every endpoint that sends a \<open>sumBurnedSats\<close> field sends the decimal string of
  the exact sum of the values of the data-carrying outputs of strictly positive value. On
  the address-history and block endpoints a data-carrying output is one whose script hex
  starts with the null-data opcode \<open>6a\<close>. On the transaction endpoint it is one that the
  script library classifies as a data output; the values there are the amounts of an
  indexed transaction, so no data output has a negative one. An output of value 0 adds
  nothing, and with no data-carrying output the string is \<open>0\<close>.
\<close>

theorem C1_sumBurnedSats:
  "(address_handler lib chronik_history chronik_utxos address page pageSize includeBalance =
      Inr (Response acode abody) \<longrightarrow>
    (\<forall>bt \<in> set (ar_txs abody).
       bt_sumBurnedSats bt =
         Some (bigint_toString
                (spec_sumBurnedSats (\<lambda>s. startsWith s ''6a'') (outputs (bt_tx bt)))))) \<and>
   (block_handler lib chronik_block hashOrHeight = Inr (Response bcode bbody) \<and>
    height (bj_blockInfo bbody) \<noteq> 0 \<longrightarrow>
    (\<forall>bt \<in> set (bj_txs bbody).
       bt_sumBurnedSats bt =
         Some (bigint_toString
                (spec_sumBurnedSats (\<lambda>s. startsWith s ''6a'') (outputs (bt_tx bt)))))) \<and>
   (chronik_tx txid_param = Inr t \<and>
    tx_sumBurnedSats (tx_handler lib getRawTransaction getBlockCount chronik_tx txid_param raw) =
      Some s \<and>
    (\<forall>output \<in> set (outputs t). isDataOut lib (outputScript output) \<longrightarrow> 0 \<le> out_value output) \<longrightarrow>
    s = bigint_toString (spec_sumBurnedSats (isDataOut lib) (outputs t))) \<and>
   ((\<forall>output \<in> set outs. \<not> dataCarrying (outputScript output)) \<longrightarrow>
    bigint_toString (spec_sumBurnedSats dataCarrying outs) = ''0'')"
proof (intro conjI impI)
  assume "address_handler lib chronik_history chronik_utxos address page pageSize includeBalance =
            Inr (Response acode abody)"
  then show "\<forall>bt \<in> set (ar_txs abody).
       bt_sumBurnedSats bt =
         Some (bigint_toString
                (spec_sumBurnedSats (\<lambda>s. startsWith s ''6a'') (outputs (bt_tx bt))))"
    using address_handler_sum by blast
next
  assume "block_handler lib chronik_block hashOrHeight = Inr (Response bcode bbody) \<and>
          height (bj_blockInfo bbody) \<noteq> 0"
  then show "\<forall>bt \<in> set (bj_txs bbody).
       bt_sumBurnedSats bt =
         Some (bigint_toString
                (spec_sumBurnedSats (\<lambda>s. startsWith s ''6a'') (outputs (bt_tx bt))))"
    using block_handler_sum by blast
next
  assume a: "chronik_tx txid_param = Inr t \<and>
    tx_sumBurnedSats (tx_handler lib getRawTransaction getBlockCount chronik_tx txid_param raw) =
      Some s \<and>
    (\<forall>output \<in> set (outputs t). isDataOut lib (outputScript output) \<longrightarrow> 0 \<le> out_value output)"
  then have "s = bigint_toString
               (sum_list (map out_value
                  (filter (\<lambda>output. isDataOut lib (outputScript output)) (outputs t))))"
    using tx_handler_sum by blast
  moreover have "sum_list (map out_value
                  (filter (\<lambda>output. isDataOut lib (outputScript output)) (outputs t))) =
                 spec_sumBurnedSats (isDataOut lib) (outputs t)"
    using a nonneg_data_sum [of "outputs t" "isDataOut lib"] by blast
  ultimately show "s = bigint_toString (spec_sumBurnedSats (isDataOut lib) (outputs t))"
    by simp
next
  assume "\<forall>output \<in> set outs. \<not> dataCarrying (outputScript output)"
  then show "bigint_toString (spec_sumBurnedSats dataCarrying outs) = ''0''"
    by (simp add: spec_sumBurnedSats_none bigint_toString_0)
qed

theorem C1_sumBurnedSats_witness:
  "address_handler sample_lib (indexer_history [sample_tx example_outputs]) indexer_utxos
     ''lotus_abc'' NaN NaN None = Inr (Response HTTP_OK example_address_body) \<and>
   map bt_sumBurnedSats (ar_txs example_address_body) = [Some ''100''] \<and>
   block_handler sample_lib (indexer_block (sample_block 7 [sample_tx example_outputs])) ''7'' =
     Inr (Response HTTP_OK example_block_body) \<and>
   height (bj_blockInfo example_block_body) \<noteq> 0 \<and>
   map bt_sumBurnedSats (bj_txs example_block_body) = [Some ''100''] \<and>
   indexer_tx (sample_tx example_outputs) ''t1'' = Inr (sample_tx example_outputs) \<and>
   tx_sumBurnedSats
     (tx_handler sample_lib node_raw (Inr 10) (indexer_tx (sample_tx example_outputs)) ''t1'' None) =
     Some ''100'' \<and>
   list_all (\<lambda>output. isDataOut sample_lib (outputScript output) \<longrightarrow> 0 \<le> out_value output)
     (outputs (sample_tx example_outputs)) \<and>
   bigint_toString (spec_sumBurnedSats (isDataOut sample_lib) (outputs (sample_tx example_outputs))) =
     ''100'' \<and>
   \<not> isDataOut sample_lib (outputScript (pay_output 500)) \<and>
   bigint_toString (spec_sumBurnedSats (isDataOut sample_lib) [pay_output 500]) = ''0''"
  using C1_sumBurnedSats
    [where lib = sample_lib and chronik_history = "indexer_history [sample_tx example_outputs]"
       and chronik_utxos = indexer_utxos and address = "''lotus_abc''" and page = NaN
       and pageSize = NaN and includeBalance = None and acode = HTTP_OK
       and abody = example_address_body
       and chronik_block = "indexer_block (sample_block 7 [sample_tx example_outputs])"
       and hashOrHeight = "''7''" and bcode = HTTP_OK and bbody = example_block_body
       and chronik_tx = "indexer_tx (sample_tx example_outputs)" and txid_param = "''t1''"
       and t = "sample_tx example_outputs" and getRawTransaction = node_raw
       and getBlockCount = "Inr 10" and raw = None and s = "''100''"
       and outs = "[pay_output 500]" and dataCarrying = "isDataOut sample_lib"]
  by code_simp

text \<open>
  When the map over the outputs returns, the library takes exactly the outputs whose
  script hex starts with \<open>6a\<close> for data outputs, and no data output has a negative
  value, the counter ends at the value of \<open>getSumBurnedSats\<close>.
\<close>

lemma burn_totals_agree:
  assumes "map_outputs lib outs \<lparr>cnt_sumBurnedSats = 0\<rparr> = Inr (eos, counters)"
      and "\<forall>output \<in> set outs.
             isDataOut lib (outputScript output) = startsWith (outputScript output) ''6a''"
      and "\<forall>output \<in> set outs. isDataOut lib (outputScript output) \<longrightarrow> 0 \<le> out_value output"
  shows "cnt_sumBurnedSats counters = getSumBurnedSats outs"
proof -
  have "cnt_sumBurnedSats counters =
          sum_list (map out_value (filter (\<lambda>output. isDataOut lib (outputScript output)) outs))"
    using map_outputs_counters [OF assms(1)] by simp
  also have "\<dots> = spec_sumBurnedSats (isDataOut lib) outs"
    using assms(3) by (rule nonneg_data_sum)
  also have "\<dots> = spec_sumBurnedSats (\<lambda>s. startsWith s ''6a'') outs"
    using assms(2) by (rule spec_sumBurnedSats_cong)
  finally show ?thesis by (simp add: getSumBurnedSats_spec)
qed







section \<open>Output enrichment: results\<close>

text \<open>
  What \<open>toExplorerTxOutput\<close> returns, when it returns. A data output gets the RANK
  payload exactly when the decoding gives one, and then no address; when the decoding
  gives nothing, the source goes on to the address test, which a script that is not also
  of an address type fails, so that the output stays as it was. A script that is no data
  output and of one of the three address types gets its address and no payload. Any
  other script is passed through with neither. The result never carries both fields.
\<close>

lemma toExplorerTxOutput_classification:
  assumes "toExplorerTxOutput lib output counters = Inr (eo, counters')"
  shows "eo_output eo = output \<and>
         (eo_address eo = None \<or> eo_rankOutput eo = None) \<and>
         (isDataOut lib (outputScript output) \<longrightarrow>
            processScriptRANK lib (outputScript output) = Inr (eo_rankOutput eo) \<and>
            (eo_rankOutput eo \<noteq> None \<longrightarrow> eo_address eo = None) \<and>
            (eo_rankOutput eo = None \<longrightarrow>
               eo_address eo =
                 (if isAddressOut lib (outputScript output)
                  then map_option (addressToString lib) (toAddress lib (outputScript output))
                  else None))) \<and>
         (\<not> isDataOut lib (outputScript output) \<and> isAddressOut lib (outputScript output) \<longrightarrow>
            eo_rankOutput eo = None \<and>
            eo_address eo = map_option (addressToString lib) (toAddress lib (outputScript output)) \<and>
            eo_address eo \<noteq> None) \<and>
         (\<not> isDataOut lib (outputScript output) \<and> \<not> isAddressOut lib (outputScript output) \<longrightarrow>
            eo_address eo = None \<and> eo_rankOutput eo = None)"
  using assms
  by (auto simp: toExplorerTxOutput_def addressOutput_def Let_def
           split: if_splits option.splits sum.splits)

text \<open>
  The function returns whenever none of the library's calls throws and an address can be
  derived from a script of an address type.
\<close>

lemma toExplorerTxOutput_returns:
  assumes "fromBuffer lib (outputScript output) = Inr ()"
      and "isDataOut lib (outputScript output) \<longrightarrow>
             newScriptProcessor lib (outputScript output) = Inr () \<and>
             (\<exists>r. processScriptRANK lib (outputScript output) = Inr r)"
      and "isAddressOut lib (outputScript output) \<longrightarrow>
             toAddress lib (outputScript output) \<noteq> None"
  shows "\<exists>eo counters'. toExplorerTxOutput lib output counters = Inr (eo, counters')"
  using assms
  by (auto simp: toExplorerTxOutput_def addressOutput_def Let_def
           split: if_splits option.splits sum.splits)

text \<open>
  The four kinds of output under the sample library, and a payment under a library that
  derives no address.
\<close>

lemma toExplorerTxOutput_examples:
  "toExplorerTxOutput sample_lib (rank_output 3) \<lparr>cnt_sumBurnedSats = 0\<rparr> =
     Inr (\<lparr>eo_output = rank_output 3, eo_address = None,
           eo_rankOutput = Some (''510101'' @ ''10'' @ replicate 32 CHR ''a'')\<rparr>,
          \<lparr>cnt_sumBurnedSats = 3\<rparr>) \<and>
   toExplorerTxOutput sample_lib (data_output 100) \<lparr>cnt_sumBurnedSats = 0\<rparr> =
     Inr (\<lparr>eo_output = data_output 100, eo_address = None, eo_rankOutput = None\<rparr>,
          \<lparr>cnt_sumBurnedSats = 100\<rparr>) \<and>
   toExplorerTxOutput sample_lib (pay_output 500) \<lparr>cnt_sumBurnedSats = 0\<rparr> =
     Inr (\<lparr>eo_output = pay_output 500, eo_address = Some (''lotus_'' @ replicate 40 CHR ''1''),
           eo_rankOutput = None\<rparr>, \<lparr>cnt_sumBurnedSats = 0\<rparr>) \<and>
   toExplorerTxOutput sample_lib (bare_output 1) \<lparr>cnt_sumBurnedSats = 0\<rparr> =
     Inr (\<lparr>eo_output = bare_output 1, eo_address = None, eo_rankOutput = None\<rparr>,
          \<lparr>cnt_sumBurnedSats = 0\<rparr>) \<and>
   toExplorerTxOutput mute_lib (pay_output 500) \<lparr>cnt_sumBurnedSats = 0\<rparr> = Inl TypeError"
  by code_simp



section \<open>Block lookup: results\<close>

text \<open>
  C7. For a block of height above zero that the indexer returns: when the first
  transaction has at least two outputs and the library derives an address from the script
  of its second output, the response is the block with the burn totals and with
  \<open>minedBy\<close> set to that address in its X-address form; when the first transaction or
  its second output is missing, or no address can be derived, the handler throws and
  sends no defaulted value.
\<close>

theorem C7_minedBy:
  assumes "hashOrHeight \<noteq> []"
      and "chronik_block hashOrHeight = Inr (Some b)"
      and "0 < height (blockInfo b)"
  shows "(0 < length (txs b) \<and> 1 < length (outputs (txs b ! 0)) \<and>
          toAddress lib (outputScript (outputs (txs b ! 0) ! 1)) = Some a \<longrightarrow>
            block_handler lib chronik_block hashOrHeight =
              Inr (Response HTTP_OK
                \<lparr>bj_blockInfo = blockInfo b,
                 bj_txs = map (\<lambda>t. \<lparr>bt_tx = t,
                             bt_sumBurnedSats =
                               Some (bigint_toString (getSumBurnedSats (outputs t)))\<rparr>) (txs b),
                 bj_minedBy = Some (toXAddress lib a)\<rparr>)) \<and>
         (\<not> (0 < length (txs b) \<and> 1 < length (outputs (txs b ! 0))) \<or>
          toAddress lib (outputScript (outputs (txs b ! 0) ! 1)) = None \<longrightarrow>
            block_handler lib chronik_block hashOrHeight = Inl TypeError)"
  using assms
  by (cases "txs b") (auto simp: block_handler_def Let_def minedBy_def)

theorem C7_minedBy_witness:
  "''7'' \<noteq> [] \<and>
   indexer_block (sample_block 7 [sample_tx [pay_output 260, pay_output 130]]) ''7'' =
     Inr (Some (sample_block 7 [sample_tx [pay_output 260, pay_output 130]])) \<and>
   0 < height (blockInfo (sample_block 7 [sample_tx [pay_output 260, pay_output 130]])) \<and>
   0 < length (txs (sample_block 7 [sample_tx [pay_output 260, pay_output 130]])) \<and>
   1 < length (outputs (txs (sample_block 7 [sample_tx [pay_output 260, pay_output 130]]) ! 0)) \<and>
   toAddress sample_lib
     (outputScript (outputs (txs (sample_block 7 [sample_tx [pay_output 260, pay_output 130]]) ! 0) ! 1)) =
     Some (replicate 40 CHR ''1'') \<and>
   block_handler sample_lib
     (indexer_block (sample_block 7 [sample_tx [pay_output 260, pay_output 130]])) ''7'' =
     Inr (Response HTTP_OK
           \<lparr>bj_blockInfo = \<lparr>height = 7, hash = ''00ab''\<rparr>,
            bj_txs = [\<lparr>bt_tx = sample_tx [pay_output 260, pay_output 130],
                       bt_sumBurnedSats = Some ''0''\<rparr>],
            bj_minedBy = Some (''lotus_'' @ replicate 40 CHR ''1'')\<rparr>) \<and>
   indexer_block (sample_block 7 [sample_tx [pay_output 260]]) ''7'' =
     Inr (Some (sample_block 7 [sample_tx [pay_output 260]])) \<and>
   0 < height (blockInfo (sample_block 7 [sample_tx [pay_output 260]])) \<and>
   (\<not> 1 < length (outputs (txs (sample_block 7 [sample_tx [pay_output 260]]) ! 0))) \<and>
   block_handler sample_lib (indexer_block (sample_block 7 [sample_tx [pay_output 260]])) ''7'' =
     Inl TypeError"
  using C7_minedBy
          [of "''7''" "indexer_block (sample_block 7 [sample_tx [pay_output 260, pay_output 130]])"
              "sample_block 7 [sample_tx [pay_output 260, pay_output 130]]" sample_lib
              "replicate 40 CHR ''1''"]
        C7_minedBy
          [of "''7''" "indexer_block (sample_block 7 [sample_tx [pay_output 260]])"
              "sample_block 7 [sample_tx [pay_output 260]]" sample_lib "replicate 40 CHR ''1''"]
  by code_simp

text \<open>
  C8. When the lookup resolves to the block of height zero, the response is the block as
  the indexer returned it: no \<open>minedBy\<close> field, the same block information, the same
  transactions in the same order, and no \<open>sumBurnedSats\<close> field on any of them.
\<close>

theorem C8_genesis_unmodified:
  assumes "hashOrHeight \<noteq> []"
      and "chronik_block hashOrHeight = Inr (Some b)"
      and "height (blockInfo b) = 0"
  shows "block_handler lib chronik_block hashOrHeight = Inr (Response HTTP_OK (plain_block b)) \<and>
         bj_minedBy (plain_block b) = None \<and>
         bj_blockInfo (plain_block b) = blockInfo b \<and>
         map bt_tx (bj_txs (plain_block b)) = txs b \<and>
         map bt_sumBurnedSats (bj_txs (plain_block b)) = replicate (length (txs b)) None"
  using assms
  by (simp add: block_handler_def plain_block_def comp_def map_replicate_const)

theorem C8_genesis_unmodified_witness:
  "''0'' \<noteq> [] \<and>
   indexer_block (sample_block 0 [sample_tx example_outputs]) ''0'' =
     Inr (Some (sample_block 0 [sample_tx example_outputs])) \<and>
   height (blockInfo (sample_block 0 [sample_tx example_outputs])) = 0 \<and>
   block_handler sample_lib (indexer_block (sample_block 0 [sample_tx example_outputs])) ''0'' =
     Inr (Response HTTP_OK
           \<lparr>bj_blockInfo = \<lparr>height = 0, hash = ''00ab''\<rparr>,
            bj_txs = [\<lparr>bt_tx = sample_tx example_outputs, bt_sumBurnedSats = None\<rparr>],
            bj_minedBy = None\<rparr>)"
  using C8_genesis_unmodified
          [of "''0''" "indexer_block (sample_block 0 [sample_tx example_outputs])"
              "sample_block 0 [sample_tx example_outputs]" sample_lib]
  by code_simp

section \<open>Pagination: results\<close>

text \<open>The effective page size, for every value that \<open>Number\<close> can give.\<close>

lemma pageSizeNum_value:
  "pageSizeNum n =
     (case n of
        NaN \<Rightarrow> Num DEFAULT_PAGE_SIZE
      | Num r \<Rightarrow> if r = 0 then Num DEFAULT_PAGE_SIZE
                 else if r > MAX_PAGE_SIZE then Num MAX_PAGE_SIZE else Num r
      | PosInf \<Rightarrow> Num MAX_PAGE_SIZE
      | NegInf \<Rightarrow> NegInf)"
  by (cases n) (simp_all add: pageSizeNum_def js_or_def Let_def DEFAULT_PAGE_SIZE_def MAX_PAGE_SIZE_def)

lemma pageSizeNum_le: "pageSizeNum n = Num ps \<Longrightarrow> ps \<le> MAX_PAGE_SIZE"
  by (cases n) (auto simp: pageSizeNum_value DEFAULT_PAGE_SIZE_def MAX_PAGE_SIZE_def split: if_splits)

text \<open>
  C2 at \<open>pageSize=-5\<close>: the value is not zero and not above the maximum, so it is kept
  as the effective page size, where C2 says \<open>DEFAULT_PAGE_SIZE\<close>. With a tip height of
  100 and no page given, the block list then asks the indexer for the heights from 106 to
  100.
\<close>

theorem C2_negative_pageSize:
  "pageSizeNum (Num (- 5)) = Num (- 5) \<and>
   firstHeight 100 (pageNum NaN) (pageSizeNum (Num (- 5))) = Num 106 \<and>
   endHeight 100 (pageNum NaN) (pageSizeNum (Num (- 5))) = Num 100"
  by code_simp

text \<open>
  Rounding: the largest finite double, three roundings (one tenth, and a tie each way
  above \<open>2 ^ 53\<close>), and the whole numbers below \<open>2 ^ 53\<close> in magnitude, which are
  doubles, so that sums and products that stay in this range are exact.
\<close>

lemma MAX_VALUE_power: "MAX_VALUE = 2 ^ 1024 - 2 ^ 971"
  by (simp add: MAX_VALUE_def)

lemma to_double_roundings:
  "to_double (1 / 10) = Num (3602879701896397 / 2 ^ 55) \<and>
   to_double (2 ^ 53 + 1) = Num (2 ^ 53) \<and>
   to_double (2 ^ 53 + 3) = Num (2 ^ 53 + 4)"
  by code_simp

lemma bit_length_nonneg: "0 \<le> bit_length n"
  by (induction n rule: bit_length.induct) (simp add: bit_length.simps)

lemma bit_length_pos: "0 < n \<Longrightarrow> 1 \<le> bit_length n"
  using bit_length_nonneg [of "n div 2"] by (simp add: bit_length.simps [of n])

lemma bit_length_lower: "0 < n \<Longrightarrow> 2 ^ nat (bit_length n - 1) \<le> n"
proof (induction n rule: bit_length.induct)
  case (1 n)
  show ?case
  proof (cases "n div 2 \<le> 0")
    case True
    then have "bit_length (n div 2) = 0" by (simp add: bit_length.simps)
    then have "bit_length n = 1" using 1 by (simp add: bit_length.simps [of n])
    then show ?thesis using 1 by simp
  next
    case False
    then have pos: "0 < n div 2" by simp
    have bl: "bit_length n = 1 + bit_length (n div 2)" using 1 by (simp add: bit_length.simps [of n])
    have ih: "2 ^ nat (bit_length (n div 2) - 1) \<le> n div 2" using 1 pos by simp
    have "1 \<le> bit_length (n div 2)" using pos by (rule bit_length_pos)
    then have "nat (bit_length n - 1) = Suc (nat (bit_length (n div 2) - 1))"
      using bl by simp
    then have "(2::int) ^ nat (bit_length n - 1) = 2 * 2 ^ nat (bit_length (n div 2) - 1)"
      by simp
    also have "\<dots> \<le> 2 * (n div 2)" using ih by simp
    also have "\<dots> \<le> n" by simp
    finally show ?thesis .
  qed
qed

lemma bit_length_le:
  assumes "0 < n" "n < 2 ^ k"
  shows "bit_length n \<le> int k"
proof (rule ccontr)
  assume "\<not> bit_length n \<le> int k"
  then have "k \<le> nat (bit_length n - 1)" by simp
  then have "(2::int) ^ k \<le> 2 ^ nat (bit_length n - 1)" by (intro power_increasing) simp_all
  then show False using bit_length_lower [OF assms(1)] assms(2) by linarith
qed

lemma bit_length_1: "bit_length 1 = 1"
  by (simp add: bit_length.simps)

lemma round_half_even_int: "round_half_even (of_int m) = m"
  by (simp add: round_half_even_def)

lemma binade_int:
  assumes "n \<noteq> 0" "\<bar>n\<bar> < 2 ^ 53"
  shows "binade (of_int n) \<le> 52"
proof -
  have "bit_length \<bar>n\<bar> \<le> 53" using bit_length_le [of "\<bar>n\<bar>" 53] assms by simp
  then show ?thesis by (simp add: binade_def bit_length_1 Let_def)
qed

lemma pow2_nonpos: "e \<le> 0 \<Longrightarrow> pow2 e = 1 / 2 ^ nat (- e)"
  by (cases "e = 0") (simp_all add: pow2_def)

lemma to_double_int:
  assumes "\<bar>n\<bar> < 2 ^ 53"
  shows "to_double (of_int n) = Num (of_int n)"
proof (cases "n = 0")
  case True
  then show ?thesis by (simp add: to_double_def)
next
  case False
  define e where "e = max (binade (of_int n) - 52) (- 1074)"
  have e: "e \<le> 0" using binade_int [OF False assms] by (simp add: e_def)
  have q: "(of_int n :: rat) / pow2 e = of_int (n * 2 ^ nat (- e))"
    using e by (simp add: pow2_nonpos)
  have y: "of_int (round_half_even (of_int n / pow2 e)) * pow2 e = (of_int n :: rat)"
    unfolding q round_half_even_int using e by (simp add: pow2_nonpos)
  have "\<bar>(of_int n :: rat)\<bar> < 2 ^ 53" using assms
    by (metis of_int_abs of_int_less_iff of_int_numeral of_int_power)
  then have "\<not> MAX_VALUE < (of_int n :: rat)" "\<not> (of_int n :: rat) < - MAX_VALUE"
    by (simp_all add: MAX_VALUE_def)
  then show ?thesis using False y by (simp add: to_double_def Let_def e_def [symmetric])
qed

text \<open>
  The rounding is to a nearest double: \<open>binade\<close> is the exponent of the value, and a
  finite result is a whole multiple of \<open>2 ^ e\<close>, for some \<open>e\<close> from \<open>-1074\<close> up, with a
  significand of at most \<open>2 ^ 53\<close> in magnitude, at a distance of at most half of
  \<open>2 ^ e\<close> from the exact value.
\<close>

lemma pow2_powi: "pow2 e = 2 powi e"
  by (simp add: pow2_def power_int_def field_simps)

lemma bit_length_upper: "0 \<le> n \<Longrightarrow> n < 2 ^ nat (bit_length n)"
proof (induction n rule: bit_length.induct)
  case (1 n)
  show ?case
  proof (cases "n \<le> 0")
    case True
    then show ?thesis using 1 by (simp add: bit_length.simps [of n])
  next
    case False
    then have bl: "bit_length n = 1 + bit_length (n div 2)" by (simp add: bit_length.simps [of n])
    have ih: "n div 2 < 2 ^ nat (bit_length (n div 2))" using 1 False by simp
    have "nat (bit_length n) = Suc (nat (bit_length (n div 2)))"
      using bl bit_length_nonneg [of "n div 2"] by simp
    then have "(2::int) ^ nat (bit_length n) = 2 * 2 ^ nat (bit_length (n div 2))" by simp
    moreover have "n < 2 * (n div 2 + 1)" by simp
    ultimately show ?thesis using ih by linarith
  qed
qed

lemma pow2_diff: "pow2 (int m - int n) = 2 ^ m / 2 ^ n"
  by (simp add: pow2_powi power_int_diff)

lemma pow2_diff_less: "pow2 (int m - int n - 1) = 2 ^ m / (2 * 2 ^ n)"
proof -
  have "pow2 (int m - int n - 1) = pow2 (int m - int (Suc n))" by (simp add: algebra_simps)
  then show ?thesis by (simp only: pow2_diff) simp
qed

lemma pow2_diff_more: "pow2 (int m - int n + 1) = 2 * 2 ^ m / 2 ^ n"
proof -
  have "pow2 (int m - int n + 1) = pow2 (int (Suc m) - int n)" by (simp add: algebra_simps)
  then show ?thesis by (simp only: pow2_diff) simp
qed

lemma binade_bounds:
  assumes "x \<noteq> 0"
  shows "pow2 (binade x) \<le> \<bar>x\<bar> \<and> \<bar>x\<bar> < pow2 (binade x + 1)"
proof -
  obtain a b where q: "quotient_of x = (a, b)" by (cases "quotient_of x")
  have b: "0 < b" using q by (rule quotient_of_denom_pos)
  have x: "x = of_int a / of_int b" using q by (rule quotient_of_div)
  have a: "a \<noteq> 0" using assms x by auto
  define m where "m = nat (bit_length \<bar>a\<bar>)"
  define n where "n = nat (bit_length b)"
  have m: "bit_length \<bar>a\<bar> = int m" using bit_length_nonneg [of "\<bar>a\<bar>"] by (simp add: m_def)
  have n: "bit_length b = int n" using bit_length_nonneg [of b] by (simp add: n_def)
  have m1: "1 \<le> m" using bit_length_pos [of "\<bar>a\<bar>"] a by (simp add: m_def)
  have n1: "1 \<le> n" using bit_length_pos [of b] b by (simp add: n_def)
  have "(2::int) ^ nat (bit_length \<bar>a\<bar> - 1) \<le> \<bar>a\<bar>" using a by (simp add: bit_length_lower)
  then have al: "(2::int) ^ (m - 1) \<le> \<bar>a\<bar>" using m m1 by (simp add: nat_diff_distrib')
  have au: "\<bar>a\<bar> < 2 ^ m" using bit_length_upper [of "\<bar>a\<bar>"] by (simp add: m_def)
  have "(2::int) ^ nat (bit_length b - 1) \<le> b" using b by (simp add: bit_length_lower)
  then have bl: "(2::int) ^ (n - 1) \<le> b" using n n1 by (simp add: nat_diff_distrib')
  have bu: "b < 2 ^ n" using bit_length_upper [of b] b by (simp add: n_def)
  define A :: rat where "A = of_int \<bar>a\<bar>"
  define B :: rat where "B = of_int b"
  have B: "0 < B" using b by (simp add: B_def)
  have A: "0 \<le> A" by (simp add: A_def)
  have ax: "\<bar>x\<bar> = A / B" using x b by (simp add: A_def B_def)
  have "(of_int ((2::int) ^ (m - 1)) :: rat) \<le> of_int \<bar>a\<bar>" using al by (simp only: of_int_le_iff)
  then have Al: "(2::rat) ^ (m - 1) \<le> A" by (simp add: A_def)
  have "(of_int \<bar>a\<bar> :: rat) < of_int ((2::int) ^ m)" using au by (simp only: of_int_less_iff)
  then have Au: "A < 2 ^ m" by (simp add: A_def)
  have "(of_int ((2::int) ^ (n - 1)) :: rat) \<le> of_int b" using bl by (simp only: of_int_le_iff)
  then have Bl: "(2::rat) ^ (n - 1) \<le> B" by (simp add: B_def)
  have "(of_int b :: rat) < of_int ((2::int) ^ n)" using bu by (simp only: of_int_less_iff)
  then have Bu: "B < 2 ^ n" by (simp add: B_def)
  have m2: "(2::rat) ^ m = 2 * 2 ^ (m - 1)" using m1 by (cases m) simp_all
  have n2: "(2::rat) ^ n = 2 * 2 ^ (n - 1)" using n1 by (cases n) simp_all
  have low: "pow2 (int m - int n - 1) \<le> A / B"
  proof -
    have "(2::rat) ^ m / (2 * 2 ^ n) = 2 ^ (m - 1) / 2 ^ n" by (simp add: m2)
    also have "\<dots> \<le> A / B"
      using Al Bu B A by (intro frac_le) simp_all
    finally show ?thesis by (simp only: pow2_diff_less)
  qed
  have high: "A / B < pow2 (int m - int n + 1)"
  proof -
    have "A / B < 2 ^ m / 2 ^ (n - 1)"
      using Au Bl B A by (intro frac_less) simp_all
    also have "\<dots> = 2 * 2 ^ m / 2 ^ n" by (simp add: n2)
    finally show ?thesis by (simp only: pow2_diff_more)
  qed
  have k: "binade x = (if pow2 (int m - int n) \<le> A / B then int m - int n else int m - int n - 1)"
    by (simp add: binade_def q m n ax Let_def)
  show ?thesis
  proof (cases "pow2 (int m - int n) \<le> A / B")
    case True
    then show ?thesis using high by (simp add: k ax)
  next
    case False
    then show ?thesis using low by (simp add: k ax)
  qed
qed

lemma round_half_even_nearest: "\<bar>of_int (round_half_even q) - q\<bar> \<le> 1 / 2"
proof -
  have "of_int \<lfloor>q\<rfloor> \<le> q" "q < of_int \<lfloor>q\<rfloor> + 1" by linarith+
  then show ?thesis by (auto simp: round_half_even_def Let_def abs_le_iff)
qed

lemma pow2_pos: "0 < pow2 e"
  by (simp add: pow2_def)

lemma pow2_mono: "a \<le> b \<Longrightarrow> pow2 a \<le> pow2 b"
  by (simp add: pow2_powi power_int_increasing)

lemma pow2_53: "pow2 53 = 2 ^ 53"
  by (simp add: pow2_def)

lemma to_double_nearest:
  assumes "to_double x = Num y"
  shows "\<exists>r e. y = of_int r * pow2 e \<and> \<bar>r\<bar> \<le> 2 ^ 53 \<and> - 1074 \<le> e \<and>
               \<bar>y - x\<bar> \<le> pow2 e / 2"
proof (cases "x = 0")
  case True
  then have "y = 0" using assms by (simp add: to_double_def)
  then show ?thesis using True by (intro exI [of _ 0] exI [of _ "- 1074"]) (simp add: pow2_pos less_imp_le)
next
  case False
  define e where "e = max (binade x - 52) (- 1074)"
  define r where "r = round_half_even (x / pow2 e)"
  have y: "y = of_int r * pow2 e"
    using assms False by (simp add: to_double_def Let_def e_def [symmetric] r_def [symmetric] split: if_splits)
  have near: "\<bar>of_int r - x / pow2 e\<bar> \<le> 1 / 2"
    unfolding r_def by (rule round_half_even_nearest)
  have "y - x = (of_int r - x / pow2 e) * pow2 e"
    using pow2_pos [of e] by (simp add: y left_diff_distrib)
  then have "\<bar>y - x\<bar> = \<bar>of_int r - x / pow2 e\<bar> * \<bar>pow2 e\<bar>"
    by (simp only: abs_mult)
  then have "\<bar>y - x\<bar> = \<bar>of_int r - x / pow2 e\<bar> * pow2 e"
    using pow2_pos [of e] by simp
  also have "\<dots> \<le> 1 / 2 * pow2 e"
    using near pow2_pos [of e] by (intro mult_right_mono) simp_all
  finally have err: "\<bar>y - x\<bar> \<le> pow2 e / 2" by simp
  have "\<bar>x\<bar> < pow2 (binade x + 1)" using binade_bounds [OF False] by simp
  also have "\<dots> \<le> pow2 (e + 53)" by (intro pow2_mono) (simp add: e_def)
  also have "\<dots> = pow2 e * 2 ^ 53" by (simp add: pow2_powi power_int_add)
  finally have "\<bar>x\<bar> / pow2 e < 2 ^ 53"
    using pow2_pos [of e] by (simp add: pos_divide_less_eq mult.commute)
  then have "\<bar>x / pow2 e\<bar> < 2 ^ 53" using pow2_pos [of e] by simp
  then have "\<bar>(of_int r :: rat)\<bar> < 2 ^ 53 + 1" using near by linarith
  then have "(of_int \<bar>r\<bar> :: rat) < of_int (2 ^ 53 + 1)" by simp
  then have "\<bar>r\<bar> < 2 ^ 53 + 1" by (simp only: of_int_less_iff)
  then have r: "\<bar>r\<bar> \<le> 2 ^ 53" by simp
  show ?thesis using y r err by (intro exI [of _ r] exI [of _ e]) (simp add: e_def)
qed

text \<open>Sums, differences and products of whole numbers that stay below \<open>2 ^ 53\<close>.\<close>

lemma js_add_int:
  "\<bar>a + b\<bar> < 2 ^ 53 \<Longrightarrow> js_add (Num (of_int a)) (Num (of_int b)) = Num (of_int (a + b))"
  using to_double_int [of "a + b"] by simp

lemma js_sub_int:
  "\<bar>a - b\<bar> < 2 ^ 53 \<Longrightarrow> js_sub (Num (of_int a)) (Num (of_int b)) = Num (of_int (a - b))"
  using to_double_int [of "a - b"] by (simp add: js_sub_def)

lemma js_mul_int:
  "\<bar>a * b\<bar> < 2 ^ 53 \<Longrightarrow> js_mul (Num (of_int a)) (Num (of_int b)) = Num (of_int (a * b))"
  using to_double_int [of "a * b"] by simp

text \<open>
  The two heights that the block list asks for, when the page number and the page size
  are whole numbers, the size is at least 1 and at most the maximum, and the product and
  the two bounds stay below \<open>2 ^ 53\<close> in magnitude.
\<close>

lemma window_heights:
  assumes "of_int ps \<le> MAX_PAGE_SIZE"
      and "1 \<le> ps"
      and "\<bar>ps * p\<bar> < 2 ^ 53"
      and "\<bar>tipHeight - ps * p\<bar> + ps < 2 ^ 53"
  shows "firstHeight tipHeight (Num (of_int p)) (Num (of_int ps)) =
           Num (of_int (max (tipHeight - ps * p + 1) 1)) \<and>
         endHeight tipHeight (Num (of_int p)) (Num (of_int ps)) =
           Num (of_int (tipHeight - ps * p + ps))"
proof -
  have start: "startHeight tipHeight (Num (of_int p)) (Num (of_int ps)) =
                 Num (of_int (tipHeight - ps * p))"
    using assms(2,3,4) by (simp only: startHeight_def js_mul_int js_sub_int)
  have one: "js_add (Num (of_int (tipHeight - ps * p))) (Num 1) =
               Num (of_int (tipHeight - ps * p + 1))"
    using js_add_int [of "tipHeight - ps * p" 1] assms(2,4) by simp
  have size: "js_add (Num (of_int (tipHeight - ps * p))) (Num (of_int ps)) =
               Num (of_int (tipHeight - ps * p + ps))"
    using js_add_int [of "tipHeight - ps * p" ps] assms(2,4) by simp
  have gt: "js_gt (Num (of_int (tipHeight - ps * p + 1))) (Num 0) = (1 \<le> tipHeight - ps * p + 1)"
    by (simp only: js_gt.simps of_int_0_less_iff) linarith
  have first: "firstHeight tipHeight (Num (of_int p)) (Num (of_int ps)) =
                 Num (of_int (max (tipHeight - ps * p + 1) 1))"
    unfolding firstHeight_def start one gt by (simp add: max_def)
  have "\<not> js_gt (Num (of_int ps)) (Num MAX_PAGE_SIZE)"
    using assms(1) by simp
  then have last: "endHeight tipHeight (Num (of_int p)) (Num (of_int ps)) =
                 Num (of_int (tipHeight - ps * p + ps))"
    unfolding endHeight_def start using size by simp
  show ?thesis using first last by simp
qed

lemma strictly_sorted_span:
  "sorted_wrt (<) (xs :: int list) \<Longrightarrow> xs \<noteq> [] \<Longrightarrow> hd xs + int (length xs) - 1 \<le> last xs"
proof (induction xs)
  case Nil
  then show ?case by simp
next
  case (Cons x xs)
  show ?case
  proof (cases xs)
    case Nil
    then show ?thesis by simp
  next
    case (Cons y ys)
    then have "x < hd xs" using Cons.prems by auto
    moreover have "hd xs + int (length xs) - 1 \<le> last xs" using Cons.IH Cons.prems Cons by auto
    ultimately show ?thesis using Cons by auto
  qed
qed

lemma count_in_window:
  assumes "sorted_wrt (<) (map height blocks)"
      and "\<forall>b \<in> set blocks. lo \<le> height b \<and> height b \<le> hi"
  shows "int (length blocks) \<le> max 0 (hi - lo + 1)"
proof (cases blocks)
  case Nil
  then show ?thesis by simp
next
  case (Cons b bs)
  let ?hs = "map height blocks"
  have ne: "?hs \<noteq> []" using Cons by simp
  have span: "hd ?hs + int (length ?hs) - 1 \<le> last ?hs"
    using strictly_sorted_span [OF assms(1) ne] .
  have "hd ?hs \<in> set ?hs" "last ?hs \<in> set ?hs"
    using ne by (rule hd_in_set, rule last_in_set)
  then have "lo \<le> hd ?hs" "last ?hs \<le> hi"
    using assms(2) by auto
  then show ?thesis using span by simp
qed

text \<open>
  C3, as stated, fails in two places. With \<open>page=9007199254740992\<close>, which is
  \<open>2 ^ 53\<close>, no page size and a tip height of 100, the differences are rounded to the
  nearest double and the last height requested is \<open>-90071992547409808\<close>, not the
  \<open>-90071992547409810\<close> of the formula. With \<open>page=0.25\<close>, no page size and a tip
  height of 2, the first height requested is \<open>0.5\<close>, not the \<open>1\<close> that the floor of
  the lower bound gives.
\<close>

theorem C3_huge_and_fractional_page:
  "pageNum (Num 9007199254740992) = Num 9007199254740992 \<and>
   pageSizeNum NaN = Num 10 \<and>
   endHeight 100 (Num 9007199254740992) (Num 10) = Num (- 90071992547409808) \<and>
   (100 - 10 * 9007199254740992 + 10 :: rat) = - 90071992547409810 \<and>
   pageNum (Num (1 / 4)) = Num (1 / 4) \<and>
   firstHeight 2 (Num (1 / 4)) (Num 10) = Num (1 / 2) \<and>
   max ((2::rat) - 10 * (1 / 4) + 1) 1 = 1"
  by code_simp

text \<open>
  C3, amended. For every tip height, every whole effective page number \<open>p\<close> and every
  whole effective page size \<open>ps\<close> from 1 to \<open>MAX_PAGE_SIZE\<close>, as long as the tip height,
  the product \<open>ps * p\<close> and the two bounds stay below \<open>2 ^ 53\<close> in magnitude, the
  block list asks the indexer for the heights from \<open>max (tipHeight - ps * p + 1) 1\<close> to
  \<open>tipHeight - ps * p + ps\<close>. When the indexer answers with blocks of strictly ascending
  heights inside that window, the response lists them in descending height order, none
  of height below 1, at most \<open>ps\<close> of them and never more than \<open>MAX_PAGE_SIZE\<close>.
\<close>

theorem C3_blocks_window:
  assumes pn: "pageNum page = Num (of_int p)"
      and psn: "pageSizeNum pageSize = Num (of_int ps)"
      and whole: "1 \<le> ps"
      and tip: "\<bar>tipHeight\<bar> < 2 ^ 53"
      and product: "\<bar>ps * p\<bar> < 2 ^ 53"
      and bounds: "\<bar>tipHeight - ps * p\<bar> + ps < 2 ^ 53"
      and answer: "chronik_blocks (Num (of_int (max (tipHeight - ps * p + 1) 1)))
                                  (Num (of_int (tipHeight - ps * p + ps))) = Inr blocks"
      and ascending: "sorted_wrt (<) (map height blocks)"
      and inside: "\<forall>b \<in> set blocks. max (tipHeight - ps * p + 1) 1 \<le> height b \<and>
                                    height b \<le> tipHeight - ps * p + ps"
  shows "firstHeight tipHeight (pageNum page) (pageSizeNum pageSize) =
           Num (of_int (max (tipHeight - ps * p + 1) 1)) \<and>
         endHeight tipHeight (pageNum page) (pageSizeNum pageSize) =
           Num (of_int (tipHeight - ps * p + ps)) \<and>
         blocks_handler (Inr tipHeight) chronik_blocks page pageSize =
           Inr (Response HTTP_OK \<lparr>br_blocks = rev blocks, br_tipHeight = tipHeight\<rparr>) \<and>
         sorted_wrt (>) (map height (rev blocks)) \<and>
         (\<forall>b \<in> set (rev blocks). 1 \<le> height b) \<and>
         int (length (rev blocks)) \<le> ps \<and>
         of_nat (length (rev blocks)) \<le> MAX_PAGE_SIZE"
proof -
  have le: "of_int ps \<le> MAX_PAGE_SIZE" using psn by (rule pageSizeNum_le)
  note w = window_heights [OF le whole product bounds]
  have h: "blocks_handler (Inr tipHeight) chronik_blocks page pageSize =
           Inr (Response HTTP_OK \<lparr>br_blocks = rev blocks, br_tipHeight = tipHeight\<rparr>)"
    using w answer by (simp add: blocks_handler_def pn psn)
  have desc: "sorted_wrt (>) (map height (rev blocks))"
    using ascending by (simp add: rev_map [symmetric] sorted_wrt_rev)
  have pos: "\<forall>b \<in> set (rev blocks). 1 \<le> height b"
    using inside by auto
  have "int (length blocks) \<le>
          max 0 ((tipHeight - ps * p + ps) - max (tipHeight - ps * p + 1) 1 + 1)"
    using count_in_window [OF ascending inside] .
  then have cnt: "int (length blocks) \<le> ps" using whole by (auto simp: max_def split: if_splits)
  have "ps \<le> 40" using le by (simp add: MAX_PAGE_SIZE_def)
  then have "int (length blocks) \<le> 40" using cnt by simp
  then have "(of_int (int (length blocks)) :: rat) \<le> of_int 40" by (simp only: of_int_le_iff)
  then have cnt2: "(of_nat (length blocks) :: rat) \<le> MAX_PAGE_SIZE"
    by (simp add: MAX_PAGE_SIZE_def)
  show ?thesis using w h desc pos cnt cnt2 by (simp add: pn psn)
qed

theorem C3_blocks_window_witness:
  "pageNum (Num 1) = Num (of_int 1) \<and>
   pageSizeNum (Num 100) = Num (of_int 40) \<and>
   (1::int) \<le> 40 \<and> \<bar>45 :: int\<bar> < 2 ^ 53 \<and> \<bar>40 * 1 :: int\<bar> < 2 ^ 53 \<and>
   \<bar>45 - 40 * 1 :: int\<bar> + 40 < 2 ^ 53 \<and>
   sample_chronik_blocks 45 (Num (of_int (max (45 - 40 * 1 + 1) 1))) (Num (of_int (45 - 40 * 1 + 40))) =
     Inr (map (\<lambda>h. \<lparr>height = h, hash = bigint_toString h\<rparr>) [6..45]) \<and>
   sorted_wrt (<) (map height (map (\<lambda>h. \<lparr>height = h, hash = bigint_toString h\<rparr>) [6..45])) \<and>
   list_all (\<lambda>b. max (45 - 40 * 1 + 1) 1 \<le> height b \<and> height b \<le> 45 - 40 * 1 + 40)
     (map (\<lambda>h. \<lparr>height = h, hash = bigint_toString h\<rparr>) [6..45]) \<and>
   blocks_handler (Inr 45) (sample_chronik_blocks 45) (Num 1) (Num 100) =
     Inr (Response HTTP_OK
           \<lparr>br_blocks = rev (map (\<lambda>h. \<lparr>height = h, hash = bigint_toString h\<rparr>) [6..45]),
            br_tipHeight = 45\<rparr>) \<and>
   length (rev (map (\<lambda>h. \<lparr>height = h, hash = bigint_toString h\<rparr>) [6..45])) = 40"
proof -
  have pn: "pageNum (Num 1) = Num (of_int 1)" by code_simp
  have psn: "pageSizeNum (Num 100) = Num (of_int 40)" by code_simp
  have whole: "(1::int) \<le> 40" by simp
  have tip: "\<bar>45 :: int\<bar> < 2 ^ 53" by simp
  have product: "\<bar>40 * 1 :: int\<bar> < 2 ^ 53" by simp
  have bounds: "\<bar>45 - 40 * 1 :: int\<bar> + 40 < 2 ^ 53" by simp
  have answer: "sample_chronik_blocks 45 (Num (of_int (max (45 - 40 * 1 + 1) 1))) (Num (of_int (45 - 40 * 1 + 40))) =
     Inr (map (\<lambda>h. \<lparr>height = h, hash = bigint_toString h\<rparr>) [6..45])"
    by code_simp
  have ascending: "sorted_wrt (<) (map height (map (\<lambda>h. \<lparr>height = h, hash = bigint_toString h\<rparr>) [6..45]))"
    by code_simp
  have inside: "list_all (\<lambda>b. max (45 - 40 * 1 + 1) 1 \<le> height b \<and> height b \<le> 45 - 40 * 1 + 40)
     (map (\<lambda>h. \<lparr>height = h, hash = bigint_toString h\<rparr>) [6..45])"
    by code_simp
  have len: "length (rev (map (\<lambda>h. \<lparr>height = h, hash = bigint_toString h\<rparr>) [6..45])) = 40"
    by code_simp
  from C3_blocks_window
         [where page = "Num 1" and pageSize = "Num 100" and p = 1 and ps = 40 and tipHeight = 45
            and chronik_blocks = "sample_chronik_blocks 45",
          OF pn psn whole tip product bounds answer ascending inside [unfolded list_all_iff]]
  have "blocks_handler (Inr 45) (sample_chronik_blocks 45) (Num 1) (Num 100) =
     Inr (Response HTTP_OK
           \<lparr>br_blocks = rev (map (\<lambda>h. \<lparr>height = h, hash = bigint_toString h\<rparr>) [6..45]),
            br_tipHeight = 45\<rparr>)"
    by blast
  with pn psn whole tip product bounds answer ascending inside len show ?thesis by blast
qed

section \<open>Network overview: results\<close>

text \<open>The loop body, branch by branch, and induction over the loop along these branches.\<close>

lemma overview_peers_skip:
  "skipped p \<Longrightarrow> overview_peers fetch (p # rest) peers st = overview_peers fetch rest peers st"
  by (auto simp: skipped_def)

lemma overview_peers_hit:
  "\<not> skipped p \<Longrightarrow> gs_cache st (strip_port (addr p)) = Some cached \<Longrightarrow>
     overview_peers fetch (p # rest) peers st =
       overview_peers fetch rest
         (peers @ [p\<lparr>addr := strip_port (addr p), geoip := Some (data cached)\<rparr>]) st"
  by (auto simp: skipped_def)

lemma overview_peers_throw:
  "\<not> skipped p \<Longrightarrow> gs_cache st (strip_port (addr p)) = None \<Longrightarrow>
   fetch (length (gs_calls st)) (strip_port (addr p)) = Inl e \<Longrightarrow>
     overview_peers fetch (p # rest) peers st =
       (Inl e, st\<lparr>gs_calls := gs_calls st @ [strip_port (addr p)]\<rparr>)"
  by (auto simp: skipped_def)

lemma overview_peers_success:
  "\<not> skipped p \<Longrightarrow> gs_cache st (strip_port (addr p)) = None \<Longrightarrow>
   fetch (length (gs_calls st)) (strip_port (addr p)) = Inr json \<Longrightarrow> success json \<Longrightarrow>
     overview_peers fetch (p # rest) peers st =
       overview_peers fetch rest
         (peers @ [p\<lparr>addr := strip_port (addr p), geoip := Some (data json)\<rparr>])
         \<lparr>gs_cache = (gs_cache st)(strip_port (addr p) \<mapsto> json),
          gs_calls = gs_calls st @ [strip_port (addr p)]\<rparr>"
  by (auto simp: skipped_def)

lemma overview_peers_unsuccessful:
  "\<not> skipped p \<Longrightarrow> gs_cache st (strip_port (addr p)) = None \<Longrightarrow>
   fetch (length (gs_calls st)) (strip_port (addr p)) = Inr json \<Longrightarrow> \<not> success json \<Longrightarrow>
     overview_peers fetch (p # rest) peers st =
       overview_peers fetch rest peers (st\<lparr>gs_calls := gs_calls st @ [strip_port (addr p)]\<rparr>)"
  by (auto simp: skipped_def)

declare overview_peers.simps(2) [simp del]

lemma overview_peers_induct [consumes 0, case_names Nil Skip Hit Throw Success Unsuccessful]:
  assumes "\<And>peers st. P [] peers st"
      and "\<And>p rest peers st. skipped p \<Longrightarrow> P rest peers st \<Longrightarrow> P (p # rest) peers st"
      and "\<And>p rest peers st cached.
             \<not> skipped p \<Longrightarrow> gs_cache st (strip_port (addr p)) = Some cached \<Longrightarrow>
             P rest (peers @ [p\<lparr>addr := strip_port (addr p), geoip := Some (data cached)\<rparr>]) st \<Longrightarrow>
             P (p # rest) peers st"
      and "\<And>p rest peers st e.
             \<not> skipped p \<Longrightarrow> gs_cache st (strip_port (addr p)) = None \<Longrightarrow>
             fetch (length (gs_calls st)) (strip_port (addr p)) = Inl e \<Longrightarrow>
             P (p # rest) peers st"
      and "\<And>p rest peers st json.
             \<not> skipped p \<Longrightarrow> gs_cache st (strip_port (addr p)) = None \<Longrightarrow>
             fetch (length (gs_calls st)) (strip_port (addr p)) = Inr json \<Longrightarrow> success json \<Longrightarrow>
             P rest (peers @ [p\<lparr>addr := strip_port (addr p), geoip := Some (data json)\<rparr>])
               \<lparr>gs_cache = (gs_cache st)(strip_port (addr p) \<mapsto> json),
                gs_calls = gs_calls st @ [strip_port (addr p)]\<rparr> \<Longrightarrow>
             P (p # rest) peers st"
      and "\<And>p rest peers st json.
             \<not> skipped p \<Longrightarrow> gs_cache st (strip_port (addr p)) = None \<Longrightarrow>
             fetch (length (gs_calls st)) (strip_port (addr p)) = Inr json \<Longrightarrow> \<not> success json \<Longrightarrow>
             P rest peers (st\<lparr>gs_calls := gs_calls st @ [strip_port (addr p)]\<rparr>) \<Longrightarrow>
             P (p # rest) peers st"
  shows "P ps peers st"
proof -
  have "\<forall>peers st. P ps peers st"
  proof (induction ps)
    case Nil
    show ?case using assms(1) by blast
  next
    case (Cons p rest)
    show ?case
    proof (intro allI)
      fix peers st
      show "P (p # rest) peers st"
      proof (cases "skipped p")
        case True
        then show ?thesis using assms(2) Cons by blast
      next
        case ns: False
        show ?thesis
        proof (cases "gs_cache st (strip_port (addr p))")
          case (Some cached)
          then show ?thesis using assms(3) ns Cons by blast
        next
          case None
          show ?thesis
          proof (cases "fetch (length (gs_calls st)) (strip_port (addr p))")
            case (Inl e)
            then show ?thesis using assms(4) ns None by blast
          next
            case (Inr json)
            then show ?thesis using assms(5,6) ns None Cons by (cases "success json") blast+
          qed
        qed
      qed
    qed
  qed
  then show ?thesis by blast
qed

lemma overview_peers_keeps:
  "overview_peers fetch ps peers st = (res, st') \<Longrightarrow> gs_cache st a = Some r \<Longrightarrow>
     gs_cache st' a = Some r \<and> (\<exists>new. gs_calls st' = gs_calls st @ new \<and> a \<notin> set new)"
proof (induction ps peers st rule: overview_peers_induct [where fetch = fetch])
  case (Nil peers st)
  then show ?case by simp
next
  case (Skip p rest peers st)
  then show ?case by (simp add: overview_peers_skip)
next
  case (Hit p rest peers st cached)
  then show ?case by (simp add: overview_peers_hit)
next
  case (Throw p rest peers st e)
  then show ?case by (auto simp: overview_peers_throw)
next
  case (Success p rest peers st json)
  from Success.hyps(2) Success.prems(2) have ne: "a \<noteq> strip_port (addr p)" by auto
  from Success.prems(1) Success.hyps have run:
    "overview_peers fetch rest
       (peers @ [p\<lparr>addr := strip_port (addr p), geoip := Some (data json)\<rparr>])
       \<lparr>gs_cache = (gs_cache st)(strip_port (addr p) \<mapsto> json),
        gs_calls = gs_calls st @ [strip_port (addr p)]\<rparr> = (res, st')"
    by (simp add: overview_peers_success)
  from Success.IH [OF run] ne Success.prems(2) show ?case by auto
next
  case (Unsuccessful p rest peers st json)
  from Unsuccessful.hyps(2) Unsuccessful.prems(2) have ne: "a \<noteq> strip_port (addr p)" by auto
  from Unsuccessful.prems(1) Unsuccessful.hyps have run:
    "overview_peers fetch rest peers (st\<lparr>gs_calls := gs_calls st @ [strip_port (addr p)]\<rparr>) = (res, st')"
    by (simp add: overview_peers_unsuccessful)
  from Unsuccessful.IH [OF run] ne Unsuccessful.prems(2) show ?case by auto
qed

lemma overview_peers_extends:
  "overview_peers fetch ps peers st = (Inr out, st') \<Longrightarrow> \<exists>more. out = peers @ more"
proof (induction ps peers st rule: overview_peers_induct [where fetch = fetch])
  case (Nil peers st)
  then show ?case by simp
next
  case (Skip p rest peers st)
  then show ?case by (simp add: overview_peers_skip)
next
  case (Hit p rest peers st cached)
  then show ?case by (fastforce simp: overview_peers_hit)
next
  case (Throw p rest peers st e)
  then show ?case by (auto simp: overview_peers_throw)
next
  case (Success p rest peers st json)
  then show ?case by (fastforce simp: overview_peers_success)
next
  case (Unsuccessful p rest peers st json)
  then show ?case by (fastforce simp: overview_peers_unsuccessful)
qed

lemma overview_peers_uses_cache:
  "overview_peers fetch ps peers st = (Inr out, st') \<Longrightarrow> gs_cache st a = Some r \<Longrightarrow>
   p \<in> set ps \<Longrightarrow> \<not> skipped p \<Longrightarrow> strip_port (addr p) = a \<Longrightarrow>
     p\<lparr>addr := a, geoip := Some (data r)\<rparr> \<in> set out"
proof (induction ps peers st rule: overview_peers_induct [where fetch = fetch])
  case (Nil peers st)
  then show ?case by simp
next
  case (Skip q rest peers st)
  then show ?case by (auto simp: overview_peers_skip)
next
  case (Hit q rest peers st cached)
  then show ?case by (auto simp: overview_peers_hit dest: overview_peers_extends)
next
  case (Throw q rest peers st e)
  then show ?case by (auto simp: overview_peers_throw)
next
  case (Success q rest peers st json)
  from Success.hyps(2) Success.prems(2) have ne: "a \<noteq> strip_port (addr q)" by auto
  then have "p \<noteq> q" using Success.prems(5) by auto
  then show ?case using Success ne by (auto simp: overview_peers_success)
next
  case (Unsuccessful q rest peers st json)
  from Unsuccessful.hyps(2) Unsuccessful.prems(2) have ne: "a \<noteq> strip_port (addr q)" by auto
  then have "p \<noteq> q" using Unsuccessful.prems(5) by auto
  then show ?case using Unsuccessful ne by (auto simp: overview_peers_unsuccessful)
qed

lemma overview_peers_returns:
  assumes nothrow: "\<forall>n b. \<exists>j. fetch n b = Inr j"
  shows "\<exists>out st'. overview_peers fetch ps peers st = (Inr out, st')"
proof (induction ps peers st rule: overview_peers_induct [where fetch = fetch])
  case (Nil peers st)
  then show ?case by simp
next
  case (Skip p rest peers st)
  then show ?case by (simp add: overview_peers_skip)
next
  case (Hit p rest peers st cached)
  then show ?case by (simp add: overview_peers_hit)
next
  case (Throw p rest peers st e)
  then show ?case using nothrow by (metis sum.distinct(1))
next
  case (Success p rest peers st json)
  then show ?case by (simp add: overview_peers_success)
next
  case (Unsuccessful p rest peers st json)
  then show ?case by (simp add: overview_peers_unsuccessful)
qed

lemma overview_peers_omits:
  assumes unsucc: "\<forall>n j. fetch n a = Inr j \<longrightarrow> \<not> success j"
  shows "overview_peers fetch ps peers st = (res, st') \<Longrightarrow> gs_cache st a = None \<Longrightarrow>
     gs_cache st' a = None \<and>
     (\<forall>out. res = Inr out \<longrightarrow> (\<forall>q \<in> set out. q \<in> set peers \<or> addr q \<noteq> a))"
proof (induction ps peers st rule: overview_peers_induct [where fetch = fetch])
  case (Nil peers st)
  then show ?case by auto
next
  case (Skip p rest peers st)
  then show ?case by (simp add: overview_peers_skip)
next
  case (Hit p rest peers st cached)
  from Hit.hyps(2) Hit.prems(2) have ne: "strip_port (addr p) \<noteq> a" by auto
  from Hit.prems(1) Hit.hyps have run:
    "overview_peers fetch rest
       (peers @ [p\<lparr>addr := strip_port (addr p), geoip := Some (data cached)\<rparr>]) st = (res, st')"
    by (simp add: overview_peers_hit)
  from Hit.IH [OF run Hit.prems(2)] have
    ih: "gs_cache st' a = None"
        "\<And>out q. res = Inr out \<Longrightarrow> q \<in> set out \<Longrightarrow>
           q \<in> set (peers @ [p\<lparr>addr := strip_port (addr p), geoip := Some (data cached)\<rparr>]) \<or>
           addr q \<noteq> a"
    by blast+
  have "q \<in> set peers \<or> addr q \<noteq> a" if "res = Inr out" "q \<in> set out" for out q
    using ih(2) [OF that] ne by auto
  then show ?case using ih(1) by blast
next
  case (Throw p rest peers st e)
  then show ?case by (auto simp: overview_peers_throw)
next
  case (Success p rest peers st json)
  from Success.hyps(3,4) unsucc have ne: "strip_port (addr p) \<noteq> a" by auto
  from Success.prems(1) Success.hyps have run:
    "overview_peers fetch rest
       (peers @ [p\<lparr>addr := strip_port (addr p), geoip := Some (data json)\<rparr>])
       \<lparr>gs_cache = (gs_cache st)(strip_port (addr p) \<mapsto> json),
        gs_calls = gs_calls st @ [strip_port (addr p)]\<rparr> = (res, st')"
    by (simp add: overview_peers_success)
  have miss1: "gs_cache \<lparr>gs_cache = (gs_cache st)(strip_port (addr p) \<mapsto> json),
        gs_calls = gs_calls st @ [strip_port (addr p)]\<rparr> a = None"
    using ne Success.prems(2) by simp
  from Success.IH [OF run miss1] have
    ih: "gs_cache st' a = None"
        "\<And>out q. res = Inr out \<Longrightarrow> q \<in> set out \<Longrightarrow>
           q \<in> set (peers @ [p\<lparr>addr := strip_port (addr p), geoip := Some (data json)\<rparr>]) \<or>
           addr q \<noteq> a"
    by blast+
  have "q \<in> set peers \<or> addr q \<noteq> a" if "res = Inr out" "q \<in> set out" for out q
    using ih(2) [OF that] ne by auto
  then show ?case using ih(1) by blast
next
  case (Unsuccessful p rest peers st json)
  from Unsuccessful.prems(1) Unsuccessful.hyps have run:
    "overview_peers fetch rest peers (st\<lparr>gs_calls := gs_calls st @ [strip_port (addr p)]\<rparr>) = (res, st')"
    by (simp add: overview_peers_unsuccessful)
  from Unsuccessful.IH [OF run] Unsuccessful.prems(2) show ?case by auto
qed

lemma overview_peers_lists:
  assumes nothrow: "\<forall>n b. \<exists>j. fetch n b = Inr j"
  shows "overview_peers fetch ps peers st = (Inr out, st') \<Longrightarrow> p \<in> set ps \<Longrightarrow> \<not> skipped p \<Longrightarrow>
     gs_cache st (strip_port (addr p)) \<noteq> None \<or>
       (\<forall>n j. fetch n (strip_port (addr p)) = Inr j \<longrightarrow> success j) \<Longrightarrow>
     \<exists>d. p\<lparr>addr := strip_port (addr p), geoip := Some d\<rparr> \<in> set out"
proof (induction ps peers st rule: overview_peers_induct [where fetch = fetch])
  case (Nil peers st)
  then show ?case by simp
next
  case (Skip q rest peers st)
  then show ?case by (auto simp: overview_peers_skip)
next
  case (Hit q rest peers st cached)
  from Hit.prems(1) Hit.hyps have run:
    "overview_peers fetch rest
       (peers @ [q\<lparr>addr := strip_port (addr q), geoip := Some (data cached)\<rparr>]) st = (Inr out, st')"
    by (simp add: overview_peers_hit)
  show ?case
  proof (cases "p = q")
    case True
    then show ?thesis using overview_peers_extends [OF run] by auto
  next
    case False
    then show ?thesis using Hit.IH [OF run] Hit.prems by auto
  qed
next
  case (Throw q rest peers st e)
  then show ?case by (auto simp: overview_peers_throw)
next
  case (Success q rest peers st json)
  from Success.prems(1) Success.hyps have run:
    "overview_peers fetch rest
       (peers @ [q\<lparr>addr := strip_port (addr q), geoip := Some (data json)\<rparr>])
       \<lparr>gs_cache = (gs_cache st)(strip_port (addr q) \<mapsto> json),
        gs_calls = gs_calls st @ [strip_port (addr q)]\<rparr> = (Inr out, st')"
    by (simp add: overview_peers_success)
  show ?case
  proof (cases "p = q")
    case True
    then show ?thesis using overview_peers_extends [OF run] by auto
  next
    case False
    then show ?thesis using Success.IH [OF run] Success.prems by auto
  qed
next
  case (Unsuccessful q rest peers st json)
  from Unsuccessful.prems(1) Unsuccessful.hyps have run:
    "overview_peers fetch rest peers (st\<lparr>gs_calls := gs_calls st @ [strip_port (addr q)]\<rparr>) = (Inr out, st')"
    by (simp add: overview_peers_unsuccessful)
  have "p \<noteq> q" using Unsuccessful.hyps(2,3,4) Unsuccessful.prems(4) by auto
  then show ?case using Unsuccessful.IH [OF run] Unsuccessful.prems by auto
qed

lemma overview_handler_keeps:
  assumes "overview_handler getPeerInfo getMiningInfo fetch st = (res, st')"
      and "gs_cache st a = Some r"
  shows "gs_cache st' a = Some r \<and> (\<exists>new. gs_calls st' = gs_calls st @ new \<and> a \<notin> set new) \<and>
         (\<forall>peerInfo k body p.
            getPeerInfo = Inr peerInfo \<and> res = Inr (Response k body) \<and> p \<in> set peerInfo \<and>
            \<not> skipped p \<and> strip_port (addr p) = a \<longrightarrow>
              p\<lparr>addr := a, geoip := Some (data r)\<rparr> \<in> set (ov_peerInfo body))"
proof (cases getPeerInfo)
  case (Inl e)
  then show ?thesis using assms by (simp add: overview_handler_def)
next
  case (Inr peerInfo)
  obtain lres st1 where loop: "overview_peers fetch peerInfo [] st = (lres, st1)"
    by (cases "overview_peers fetch peerInfo [] st")
  have st1: "st' = st1"
    using assms(1) Inr loop by (auto simp: overview_handler_def split: sum.splits)
  have used: "\<And>out p. lres = Inr out \<Longrightarrow> p \<in> set peerInfo \<Longrightarrow> \<not> skipped p \<Longrightarrow>
                strip_port (addr p) = a \<Longrightarrow> p\<lparr>addr := a, geoip := Some (data r)\<rparr> \<in> set out"
    using overview_peers_uses_cache [of fetch peerInfo "[]" st _ st1 a r] loop assms(2) by blast
  have body: "\<And>k body. res = Inr (Response k body) \<Longrightarrow> lres = Inr (ov_peerInfo body)"
    using assms(1) Inr loop by (auto simp: overview_handler_def split: sum.splits)
  show ?thesis
    using overview_peers_keeps [OF loop assms(2)] st1 used body Inr by auto
qed

text \<open>
  What the two patterns catch: a peer whose address without the port starts like a
  private, loopback or link-local IPv4 address, or like a unique-local or link-local IPv6
  address, is skipped, and every listed peer comes from a reported peer that was not
  skipped. The loopback \<open>::1\<close> is caught only when the reported address is exactly
  \<open>::1\<close>.
\<close>

lemma strip_port_prefix: "\<exists>rest. a = strip_port a @ rest"
  by (induction a) auto

lemma startsWith_append: "startsWith s p \<Longrightarrow> startsWith (s @ t) p"
  by (auto simp: startsWith_def) (metis nat_le_linear take_all)

lemma match_172_append: "match_172 s \<Longrightarrow> match_172 (s @ t)"
proof -
  assume m: "match_172 s"
  then have sw: "startsWith s ''172.''" by (simp add: match_172_def)
  then have t: "take (length ''172.'') s = ''172.''" unfolding startsWith_def .
  have "length (take (length ''172.'') s) = length ''172.''" by (simp only: t)
  then have "4 \<le> length s" by simp
  then have d: "drop 4 (s @ t) = drop 4 s @ t" by simp
  from m have "case drop 4 s of
         c1 # c2 # c3 # _ \<Rightarrow>
           ((c1 = CHR ''1'' \<and> c2 \<in> set ''6789'') \<or>
            (c1 = CHR ''2'' \<and> is_digit c2) \<or>
            (c1 = CHR ''3'' \<and> c2 \<in> set ''01'')) \<and> c3 = CHR ''.''
       | _ \<Rightarrow> False"
    by (simp add: match_172_def)
  then have "case drop 4 s @ t of
         c1 # c2 # c3 # _ \<Rightarrow>
           ((c1 = CHR ''1'' \<and> c2 \<in> set ''6789'') \<or>
            (c1 = CHR ''2'' \<and> is_digit c2) \<or>
            (c1 = CHR ''3'' \<and> c2 \<in> set ''01'')) \<and> c3 = CHR ''.''
       | _ \<Rightarrow> False"
    by (cases "drop 4 s" rule: list.exhaust; simp split: list.splits)
  then show ?thesis using sw by (simp add: match_172_def d startsWith_append del: drop_append)
qed

lemma match_private_ipv4_append: "match_private_ipv4 s \<Longrightarrow> match_private_ipv4 (s @ t)"
  by (auto simp: match_private_ipv4_def startsWith_append match_172_append)

lemma private_ipv4_skipped: "match_private_ipv4 (strip_port (addr p)) \<Longrightarrow> skipped p"
  using strip_port_prefix [of "addr p"] match_private_ipv4_append
  by (metis skipped_def)

lemma match_private_ipv6_append:
  "match_private_ipv6 s \<Longrightarrow> s \<noteq> ''::1'' \<Longrightarrow> match_private_ipv6 (s @ t)"
proof -
  assume m: "match_private_ipv6 s" and ne: "s \<noteq> ''::1''"
  then obtain c1 c2 c3 c4 c5 r where s: "s = c1 # c2 # c3 # c4 # c5 # r"
    by (auto simp: match_private_ipv6_def split: list.splits)
  show ?thesis using m ne unfolding s by (simp add: match_private_ipv6_def)
qed

lemma private_ipv6_prefix_skipped:
  "match_private_ipv6 (strip_port (addr p)) \<Longrightarrow> strip_port (addr p) \<noteq> ''::1'' \<Longrightarrow> skipped p"
  using strip_port_prefix [of "addr p"] match_private_ipv6_append
  by (metis skipped_def)

lemma overview_peers_origin:
  "overview_peers fetch ps peers st = (Inr out, st') \<Longrightarrow> q \<in> set out \<Longrightarrow>
     q \<in> set peers \<or>
     (\<exists>p \<in> set ps. \<not> skipped p \<and> addr q = strip_port (addr p) \<and> peer_rest q = peer_rest p)"
proof (induction ps arbitrary: peers st)
  case Nil
  then show ?case by simp
next
  case (Cons p rest)
  show ?case
  proof (cases "skipped p")
    case True
    then show ?thesis using Cons by (auto simp: overview_peers_skip)
  next
    case False
    then show ?thesis
      using Cons.prems Cons.IH
      by (fastforce simp: skipped_def overview_peers.simps(2) split: option.splits sum.splits if_splits)
  qed
qed

text \<open>
  C4 at the addresses \<open>[::1]:10605\<close> (the node's form of an IPv6 address with a port),
  \<open>::1:10605\<close> and \<open>[fe80::1]:10605\<close>: the second pattern is anchored at the start of the
  reported address, and its \<open>::1\<close> branch at the end too, so none of them matches; the
  port is removed afterwards, the geolocation service is asked, and on a successful
  answer the three peers are listed. The peers \<open>192.168.1.5:1234\<close> and \<open>::1\<close> of the
  same request are not.
\<close>

theorem C4_ipv6_peer_listed:
  "match_private_ipv6 ''[::1]:10605'' = False \<and> strip_port ''[::1]:10605'' = ''[::1]'' \<and>
   match_private_ipv6 ''::1:10605'' = False \<and> strip_port ''::1:10605'' = ''::1'' \<and>
   match_private_ipv6 ''[fe80::1]:10605'' = False \<and>
   strip_port ''[fe80::1]:10605'' = ''[fe80::1]'' \<and>
   fst (overview_handler
          (Inr [sample_peer ''[::1]:10605'', sample_peer ''::1:10605'',
                sample_peer ''[fe80::1]:10605'', sample_peer ''192.168.1.5:1234'',
                sample_peer ''::1''])
          (Inr ()) quiet_fetch fresh_geo_state) =
     Inr (Response HTTP_OK
           \<lparr>ov_miningInfo = (),
            ov_peerInfo = [listed_peer ''[::1]'', listed_peer ''::1'', listed_peer ''[fe80::1]'']\<rparr>)"
  by code_simp

text \<open>
  C5. Once the cache holds a record for an address, then through any sequence of
  \<open>/overview\<close> requests that the process serves after it, the record stays as it is, no
  request for that address is sent to the geolocation service, and every response lists
  each reported peer that is not skipped and has that address with the data of the cached
  record.
\<close>

theorem C5_cache_write_once:
  assumes "run_overviews fetch rqs st = (ress, st')"
      and "gs_cache st a = Some r"
  shows "gs_cache st' a = Some r \<and> (\<exists>new. gs_calls st' = gs_calls st @ new \<and> a \<notin> set new) \<and>
         list_all2 (\<lambda>rq res. \<forall>peerInfo k body p.
            fst rq = Inr peerInfo \<and> res = Inr (Response k body) \<and> p \<in> set peerInfo \<and>
            \<not> skipped p \<and> strip_port (addr p) = a \<longrightarrow>
              p\<lparr>addr := a, geoip := Some (data r)\<rparr> \<in> set (ov_peerInfo body)) rqs ress"
  using assms
proof (induction rqs arbitrary: st ress)
  case Nil
  then show ?case by simp
next
  case (Cons rq rqs)
  obtain res st1 where h: "overview_handler (fst rq) (snd rq) fetch st = (res, st1)"
    by (cases "overview_handler (fst rq) (snd rq) fetch st")
  obtain ress1 where r: "run_overviews fetch rqs st1 = (ress1, st')" and ress: "ress = res # ress1"
    using Cons.prems(1) h by (auto split: prod.splits)
  note k = overview_handler_keeps [OF h Cons.prems(2)]
  from k have c1: "gs_cache st1 a = Some r" by blast
  note ih = Cons.IH [OF r c1]
  from k ih obtain n1 n2 where "gs_calls st1 = gs_calls st @ n1" "a \<notin> set n1"
     "gs_calls st' = gs_calls st1 @ n2" "a \<notin> set n2" by blast
  then have calls: "\<exists>new. gs_calls st' = gs_calls st @ new \<and> a \<notin> set new"
    by (intro exI [of _ "n1 @ n2"]) simp
  from k have q: "\<forall>peerInfo k body p.
            fst rq = Inr peerInfo \<and> res = Inr (Response k body) \<and> p \<in> set peerInfo \<and>
            \<not> skipped p \<and> strip_port (addr p) = a \<longrightarrow>
              p\<lparr>addr := a, geoip := Some (data r)\<rparr> \<in> set (ov_peerInfo body)"
    by blast
  from ih have c2: "gs_cache st' a = Some r" by blast
  from ih have l: "list_all2 (\<lambda>rq res. \<forall>peerInfo k body p.
            fst rq = Inr peerInfo \<and> res = Inr (Response k body) \<and> p \<in> set peerInfo \<and>
            \<not> skipped p \<and> strip_port (addr p) = a \<longrightarrow>
              p\<lparr>addr := a, geoip := Some (data r)\<rparr> \<in> set (ov_peerInfo body)) rqs ress1"
    by blast
  show ?case unfolding ress list_all2_Cons using c2 calls q l by blast
qed

theorem C5_cache_write_once_witness:
  "gs_cache warm_geo_state ''1.1.1.1'' = Some (geo_answer True ''1.1.1.1'') \<and>
   gs_cache
     (snd (run_overviews quiet_fetch
             [(Inr [sample_peer ''9.9.9.9:10605'', sample_peer ''1.1.1.1:10605''], Inr ()),
              (Inr [sample_peer ''1.1.1.1:10605''], Inr ())] warm_geo_state)) ''1.1.1.1'' =
     Some (geo_answer True ''1.1.1.1'') \<and>
   gs_calls
     (snd (run_overviews quiet_fetch
             [(Inr [sample_peer ''9.9.9.9:10605'', sample_peer ''1.1.1.1:10605''], Inr ()),
              (Inr [sample_peer ''1.1.1.1:10605''], Inr ())] warm_geo_state)) =
     gs_calls warm_geo_state @ [''9.9.9.9''] \<and>
   fst (run_overviews quiet_fetch
          [(Inr [sample_peer ''9.9.9.9:10605'', sample_peer ''1.1.1.1:10605''], Inr ()),
           (Inr [sample_peer ''1.1.1.1:10605''], Inr ())] warm_geo_state) =
     [Inr (Response HTTP_OK \<lparr>ov_miningInfo = (), ov_peerInfo = [listed_peer ''1.1.1.1'']\<rparr>),
      Inr (Response HTTP_OK \<lparr>ov_miningInfo = (), ov_peerInfo = [listed_peer ''1.1.1.1'']\<rparr>)]"
proof -
  have run: "run_overviews quiet_fetch
               [(Inr [sample_peer ''9.9.9.9:10605'', sample_peer ''1.1.1.1:10605''], Inr ()),
                (Inr [sample_peer ''1.1.1.1:10605''], Inr ())] warm_geo_state =
             (fst (run_overviews quiet_fetch
                [(Inr [sample_peer ''9.9.9.9:10605'', sample_peer ''1.1.1.1:10605''], Inr ()),
                 (Inr [sample_peer ''1.1.1.1:10605''], Inr ())] warm_geo_state),
              snd (run_overviews quiet_fetch
                [(Inr [sample_peer ''9.9.9.9:10605'', sample_peer ''1.1.1.1:10605''], Inr ()),
                 (Inr [sample_peer ''1.1.1.1:10605''], Inr ())] warm_geo_state))"
    by simp
  have hit: "gs_cache warm_geo_state ''1.1.1.1'' = Some (geo_answer True ''1.1.1.1'')"
    by (simp add: warm_geo_state_def)
  from C5_cache_write_once [OF run hit]
  have kept: "gs_cache
     (snd (run_overviews quiet_fetch
             [(Inr [sample_peer ''9.9.9.9:10605'', sample_peer ''1.1.1.1:10605''], Inr ()),
              (Inr [sample_peer ''1.1.1.1:10605''], Inr ())] warm_geo_state)) ''1.1.1.1'' =
     Some (geo_answer True ''1.1.1.1'')"
    by blast
  have calls: "gs_calls
     (snd (run_overviews quiet_fetch
             [(Inr [sample_peer ''9.9.9.9:10605'', sample_peer ''1.1.1.1:10605''], Inr ()),
              (Inr [sample_peer ''1.1.1.1:10605''], Inr ())] warm_geo_state)) =
     gs_calls warm_geo_state @ [''9.9.9.9'']"
    by code_simp
  have answers: "fst (run_overviews quiet_fetch
          [(Inr [sample_peer ''9.9.9.9:10605'', sample_peer ''1.1.1.1:10605''], Inr ()),
           (Inr [sample_peer ''1.1.1.1:10605''], Inr ())] warm_geo_state) =
     [Inr (Response HTTP_OK \<lparr>ov_miningInfo = (), ov_peerInfo = [listed_peer ''1.1.1.1'']\<rparr>),
      Inr (Response HTTP_OK \<lparr>ov_miningInfo = (), ov_peerInfo = [listed_peer ''1.1.1.1'']\<rparr>)]"
    by code_simp
  from hit kept calls answers show ?thesis by blast
qed

text \<open>
  C6, as stated, fails when the lookup itself fails: \<open>fetch\<close> throws for the first peer,
  nothing catches it, and the request ends with that exception instead of a response
  listing the second peer.
\<close>

theorem C6_lookup_throws:
  "failing_fetch 0 ''8.8.8.8'' = Inl (Thrown ''fetch failed'') \<and>
   fst (overview_handler (Inr [sample_peer ''8.8.8.8:10605'', sample_peer ''1.1.1.1:10605''])
          (Inr ()) failing_fetch fresh_geo_state) = Inl (Thrown ''fetch failed'')"
  by code_simp

text \<open>
  The loop over a list of peers that is given in two parts: the second part is run from
  the list and the state that the first part leaves, unless the first part throws. What
  the loop returns is the list it started with, followed by entries that each come from
  a reported peer that was not skipped.
\<close>

lemma overview_peers_append:
  "overview_peers fetch (xs @ ys) peers st =
     (case overview_peers fetch xs peers st of
        (Inl e, st1) \<Rightarrow> (Inl e, st1)
      | (Inr acc, st1) \<Rightarrow> overview_peers fetch ys acc st1)"
proof (induction xs peers st rule: overview_peers_induct [where fetch = fetch])
  case (Nil peers st)
  then show ?case by simp
next
  case (Skip p rest peers st)
  then show ?case by (simp add: overview_peers_skip)
next
  case (Hit p rest peers st cached)
  then show ?case by (simp add: overview_peers_hit)
next
  case (Throw p rest peers st e)
  then show ?case by (simp add: overview_peers_throw)
next
  case (Success p rest peers st json)
  then show ?case by (simp add: overview_peers_success)
next
  case (Unsuccessful p rest peers st json)
  then show ?case by (simp add: overview_peers_unsuccessful)
qed

lemma overview_peers_added:
  "overview_peers fetch ps peers st = (Inr out, st') \<Longrightarrow>
     \<exists>more. out = peers @ more \<and>
       (\<forall>q \<in> set more. \<exists>r \<in> set ps.
          \<not> skipped r \<and> addr q = strip_port (addr r) \<and> peer_rest q = peer_rest r)"
proof (induction ps peers st rule: overview_peers_induct [where fetch = fetch])
  case (Nil peers st)
  then show ?case by simp
next
  case (Skip p rest peers st)
  then show ?case by (auto simp: overview_peers_skip)
next
  case (Hit p rest peers st cached)
  from Hit.prems Hit.hyps have run:
    "overview_peers fetch rest
       (peers @ [p\<lparr>addr := strip_port (addr p), geoip := Some (data cached)\<rparr>]) st = (Inr out, st')"
    by (simp add: overview_peers_hit)
  from Hit.IH [OF run] obtain more where
    m: "out = (peers @ [p\<lparr>addr := strip_port (addr p), geoip := Some (data cached)\<rparr>]) @ more"
       "\<forall>q \<in> set more. \<exists>r \<in> set rest.
          \<not> skipped r \<and> addr q = strip_port (addr r) \<and> peer_rest q = peer_rest r"
    by blast
  show ?case
    using m Hit.hyps(1)
    by (intro exI [of _ "p\<lparr>addr := strip_port (addr p), geoip := Some (data cached)\<rparr> # more"]) auto
next
  case (Throw p rest peers st e)
  then show ?case by (auto simp: overview_peers_throw)
next
  case (Success p rest peers st json)
  from Success.prems Success.hyps have run:
    "overview_peers fetch rest
       (peers @ [p\<lparr>addr := strip_port (addr p), geoip := Some (data json)\<rparr>])
       \<lparr>gs_cache = (gs_cache st)(strip_port (addr p) \<mapsto> json),
        gs_calls = gs_calls st @ [strip_port (addr p)]\<rparr> = (Inr out, st')"
    by (simp add: overview_peers_success)
  from Success.IH [OF run] obtain more where
    m: "out = (peers @ [p\<lparr>addr := strip_port (addr p), geoip := Some (data json)\<rparr>]) @ more"
       "\<forall>q \<in> set more. \<exists>r \<in> set rest.
          \<not> skipped r \<and> addr q = strip_port (addr r) \<and> peer_rest q = peer_rest r"
    by blast
  show ?case
    using m Success.hyps(1)
    by (intro exI [of _ "p\<lparr>addr := strip_port (addr p), geoip := Some (data json)\<rparr> # more"]) auto
next
  case (Unsuccessful p rest peers st json)
  from Unsuccessful.prems Unsuccessful.hyps have run:
    "overview_peers fetch rest peers (st\<lparr>gs_calls := gs_calls st @ [strip_port (addr p)]\<rparr>) = (Inr out, st')"
    by (simp add: overview_peers_unsuccessful)
  from Unsuccessful.IH [OF run] show ?case by auto
qed

text \<open>
  An address that is not in the cache and for which every answer is an unsuccessful one,
  under a service that never throws: the request succeeds, the cache still has no entry
  for the address, no listed peer has it, and every reported peer that is not skipped and
  whose address is cached or always answered successfully is listed.
\<close>

lemma overview_unanswered_address:
  assumes nothrow: "\<forall>n b. \<exists>j. fetch n b = Inr j"
      and unsucc: "\<forall>n. \<exists>j. fetch n a = Inr j \<and> \<not> success j"
      and miss: "gs_cache st a = None"
  shows "\<exists>body st'.
           overview_handler (Inr peerInfo) (Inr miningInfo) fetch st =
             (Inr (Response HTTP_OK body), st') \<and>
           ov_miningInfo body = miningInfo \<and>
           gs_cache st' a = None \<and>
           (\<forall>q \<in> set (ov_peerInfo body). addr q \<noteq> a) \<and>
           (\<forall>p \<in> set peerInfo.
              \<not> skipped p \<and>
              (gs_cache st (strip_port (addr p)) \<noteq> None \<or>
               (\<forall>n. \<exists>j. fetch n (strip_port (addr p)) = Inr j \<and> success j)) \<longrightarrow>
              (\<exists>d. p\<lparr>addr := strip_port (addr p), geoip := Some d\<rparr> \<in> set (ov_peerInfo body)))"
proof -
  from overview_peers_returns [OF nothrow] obtain out st' where
    loop: "overview_peers fetch peerInfo [] st = (Inr out, st')" by blast
  have h: "overview_handler (Inr peerInfo) (Inr miningInfo) fetch st =
             (Inr (Response HTTP_OK \<lparr>ov_miningInfo = miningInfo, ov_peerInfo = out\<rparr>), st')"
    using loop by (simp add: overview_handler_def)
  have unsucc': "\<forall>n j. fetch n a = Inr j \<longrightarrow> \<not> success j"
    using unsucc by (metis sum.inject(2))
  from overview_peers_omits [OF unsucc' loop miss]
  have om: "gs_cache st' a = None" "\<forall>q \<in> set out. addr q \<noteq> a" by auto
  have li: "\<exists>d. p\<lparr>addr := strip_port (addr p), geoip := Some d\<rparr> \<in> set out"
    if "p \<in> set peerInfo" "\<not> skipped p"
       "gs_cache st (strip_port (addr p)) \<noteq> None \<or>
        (\<forall>n. \<exists>j. fetch n (strip_port (addr p)) = Inr j \<and> success j)" for p
  proof -
    have "gs_cache st (strip_port (addr p)) \<noteq> None \<or>
          (\<forall>n j. fetch n (strip_port (addr p)) = Inr j \<longrightarrow> success j)"
      using that(3) by (metis sum.inject(2))
    then show ?thesis using overview_peers_lists [OF nothrow loop that(1,2)] by blast
  qed
  show ?thesis using h om li by auto
qed

text \<open>
  A service that answers unsuccessfully once and successfully afterwards, and two peers
  at one address: the first lookup adds nothing, the second peer is looked up again,
  listed and cached.
\<close>

lemma overview_flaky_service:
  "fst (overview_handler (Inr [sample_peer ''9.9.9.9:10605'', sample_peer ''9.9.9.9:10606''])
          (Inr ()) flaky_fetch fresh_geo_state) =
     Inr (Response HTTP_OK \<lparr>ov_miningInfo = (), ov_peerInfo = [listed_peer ''9.9.9.9'']\<rparr>) \<and>
   gs_cache
     (snd (overview_handler (Inr [sample_peer ''9.9.9.9:10605'', sample_peer ''9.9.9.9:10606''])
             (Inr ()) flaky_fetch fresh_geo_state)) ''9.9.9.9'' =
     Some (geo_answer True ''9.9.9.9'') \<and>
   gs_calls
     (snd (overview_handler (Inr [sample_peer ''9.9.9.9:10605'', sample_peer ''9.9.9.9:10606''])
             (Inr ()) flaky_fetch fresh_geo_state)) = [''9.9.9.9'', ''9.9.9.9'']"
  by code_simp

text \<open>
  C6, amended. Take any peer of a request that is not skipped and not in the cache when
  its turn comes, after the peers before it have been processed without an exception.
  When its lookup returns an unsuccessful response, the peer adds no entry, the cache is
  left as it was, and the request goes on with the remaining peers from the list built so
  far: when the loop over them returns, the request succeeds, and its response lists the
  peers listed before followed by entries that each come from one of the remaining
  peers. When its lookup throws, the whole request fails with that exception, whatever
  the remaining peers and the answer to \<open>getMiningInfo\<close> are.
\<close>

theorem C6_unsuccessful_lookup:
  assumes before: "overview_peers fetch before [] st = (Inr acc, st1)"
      and ns: "\<not> skipped p"
      and miss: "gs_cache st1 (strip_port (addr p)) = None"
  shows "(\<forall>json. fetch (length (gs_calls st1)) (strip_port (addr p)) = Inr json \<and> \<not> success json \<longrightarrow>
            overview_peers fetch (before @ p # rest) [] st =
              overview_peers fetch rest acc
                (st1\<lparr>gs_calls := gs_calls st1 @ [strip_port (addr p)]\<rparr>) \<and>
            (\<forall>out st'.
               overview_peers fetch rest acc
                 (st1\<lparr>gs_calls := gs_calls st1 @ [strip_port (addr p)]\<rparr>) = (Inr out, st') \<longrightarrow>
               overview_handler (Inr (before @ p # rest)) (Inr miningInfo) fetch st =
                 (Inr (Response HTTP_OK \<lparr>ov_miningInfo = miningInfo, ov_peerInfo = out\<rparr>), st') \<and>
               (\<exists>more. out = acc @ more \<and>
                  (\<forall>q \<in> set more. \<exists>r \<in> set rest.
                     \<not> skipped r \<and> addr q = strip_port (addr r) \<and> peer_rest q = peer_rest r)))) \<and>
         (\<forall>e. fetch (length (gs_calls st1)) (strip_port (addr p)) = Inl e \<longrightarrow>
            overview_handler (Inr (before @ p # rest)) getMiningInfo fetch st =
              (Inl e, st1\<lparr>gs_calls := gs_calls st1 @ [strip_port (addr p)]\<rparr>))"
proof (intro conjI allI impI)
  have app: "overview_peers fetch (before @ p # rest) [] st = overview_peers fetch (p # rest) acc st1"
    using before by (simp add: overview_peers_append)
  {
    fix json
    assume a: "fetch (length (gs_calls st1)) (strip_port (addr p)) = Inr json \<and> \<not> success json"
    then have step: "overview_peers fetch (p # rest) acc st1 =
                 overview_peers fetch rest acc (st1\<lparr>gs_calls := gs_calls st1 @ [strip_port (addr p)]\<rparr>)"
      using ns miss by (simp add: overview_peers_unsuccessful)
    show "overview_peers fetch (before @ p # rest) [] st =
            overview_peers fetch rest acc (st1\<lparr>gs_calls := gs_calls st1 @ [strip_port (addr p)]\<rparr>)"
      using app step by simp
    fix out st'
    assume run: "overview_peers fetch rest acc
                   (st1\<lparr>gs_calls := gs_calls st1 @ [strip_port (addr p)]\<rparr>) = (Inr out, st')"
    show "overview_handler (Inr (before @ p # rest)) (Inr miningInfo) fetch st =
            (Inr (Response HTTP_OK \<lparr>ov_miningInfo = miningInfo, ov_peerInfo = out\<rparr>), st')"
      using app step run by (simp add: overview_handler_def)
    show "\<exists>more. out = acc @ more \<and>
            (\<forall>q \<in> set more. \<exists>r \<in> set rest.
               \<not> skipped r \<and> addr q = strip_port (addr r) \<and> peer_rest q = peer_rest r)"
      using run by (rule overview_peers_added)
  }
  {
    fix e
    assume "fetch (length (gs_calls st1)) (strip_port (addr p)) = Inl e"
    then have "overview_peers fetch (p # rest) acc st1 =
                 (Inl e, st1\<lparr>gs_calls := gs_calls st1 @ [strip_port (addr p)]\<rparr>)"
      using ns miss by (simp add: overview_peers_throw)
    then show "overview_handler (Inr (before @ p # rest)) getMiningInfo fetch st =
                 (Inl e, st1\<lparr>gs_calls := gs_calls st1 @ [strip_port (addr p)]\<rparr>)"
      using app by (simp add: overview_handler_def)
  }
qed

theorem C6_unsuccessful_lookup_witness:
  "fst (overview_peers quiet_fetch [sample_peer ''1.1.1.1:10605''] [] fresh_geo_state) =
     Inr [listed_peer ''1.1.1.1''] \<and>
   \<not> skipped (sample_peer ''9.9.9.9:10605'') \<and>
   gs_cache (snd (overview_peers quiet_fetch [sample_peer ''1.1.1.1:10605''] [] fresh_geo_state))
     (strip_port (addr (sample_peer ''9.9.9.9:10605''))) = None \<and>
   quiet_fetch
     (length (gs_calls (snd (overview_peers quiet_fetch [sample_peer ''1.1.1.1:10605''] []
                               fresh_geo_state))))
     (strip_port (addr (sample_peer ''9.9.9.9:10605''))) = Inr (geo_answer False ''9.9.9.9'') \<and>
   \<not> success (geo_answer False ''9.9.9.9'') \<and>
   fst (overview_handler
          (Inr ([sample_peer ''1.1.1.1:10605''] @ sample_peer ''9.9.9.9:10605'' #
                [sample_peer ''8.8.4.4:10605'']))
          (Inr ()) quiet_fetch fresh_geo_state) =
     Inr (Response HTTP_OK
           \<lparr>ov_miningInfo = (),
            ov_peerInfo = [listed_peer ''1.1.1.1''] @ [listed_peer ''8.8.4.4'']\<rparr>) \<and>
   gs_cache
     (snd (overview_handler
             (Inr ([sample_peer ''1.1.1.1:10605''] @ sample_peer ''9.9.9.9:10605'' #
                   [sample_peer ''8.8.4.4:10605'']))
             (Inr ()) quiet_fetch fresh_geo_state)) ''9.9.9.9'' = None \<and>
   fst (overview_peers failing_fetch [sample_peer ''1.1.1.1:10605''] [] fresh_geo_state) =
     Inr [listed_peer ''1.1.1.1''] \<and>
   \<not> skipped (sample_peer ''8.8.8.8:10605'') \<and>
   gs_cache (snd (overview_peers failing_fetch [sample_peer ''1.1.1.1:10605''] [] fresh_geo_state))
     (strip_port (addr (sample_peer ''8.8.8.8:10605''))) = None \<and>
   failing_fetch
     (length (gs_calls (snd (overview_peers failing_fetch [sample_peer ''1.1.1.1:10605''] []
                               fresh_geo_state))))
     (strip_port (addr (sample_peer ''8.8.8.8:10605''))) = Inl (Thrown ''fetch failed'') \<and>
   fst (overview_handler
          (Inr ([sample_peer ''1.1.1.1:10605''] @ sample_peer ''8.8.8.8:10605'' #
                [sample_peer ''8.8.4.4:10605'']))
          (Inr ()) failing_fetch fresh_geo_state) = Inl (Thrown ''fetch failed'')"
proof -
  let ?q1 = "overview_peers quiet_fetch [sample_peer ''1.1.1.1:10605''] [] fresh_geo_state"
  let ?f1 = "overview_peers failing_fetch [sample_peer ''1.1.1.1:10605''] [] fresh_geo_state"
  have qacc: "fst ?q1 = Inr [listed_peer ''1.1.1.1'']" by code_simp
  then have qbefore: "?q1 = (Inr [listed_peer ''1.1.1.1''], snd ?q1)"
    by (metis prod.collapse)
  have qns: "\<not> skipped (sample_peer ''9.9.9.9:10605'')" by code_simp
  have qmiss: "gs_cache (snd ?q1) (strip_port (addr (sample_peer ''9.9.9.9:10605''))) = None"
    by code_simp
  have qans: "quiet_fetch (length (gs_calls (snd ?q1)))
                (strip_port (addr (sample_peer ''9.9.9.9:10605''))) =
              Inr (geo_answer False ''9.9.9.9'')"
    by code_simp
  have quns: "\<not> success (geo_answer False ''9.9.9.9'')" by code_simp
  have qres: "fst (overview_handler
          (Inr ([sample_peer ''1.1.1.1:10605''] @ sample_peer ''9.9.9.9:10605'' #
                [sample_peer ''8.8.4.4:10605'']))
          (Inr ()) quiet_fetch fresh_geo_state) =
     Inr (Response HTTP_OK
           \<lparr>ov_miningInfo = (),
            ov_peerInfo = [listed_peer ''1.1.1.1''] @ [listed_peer ''8.8.4.4'']\<rparr>)"
    by code_simp
  have qcache: "gs_cache
     (snd (overview_handler
             (Inr ([sample_peer ''1.1.1.1:10605''] @ sample_peer ''9.9.9.9:10605'' #
                   [sample_peer ''8.8.4.4:10605'']))
             (Inr ()) quiet_fetch fresh_geo_state)) ''9.9.9.9'' = None"
    by code_simp
  have facc: "fst ?f1 = Inr [listed_peer ''1.1.1.1'']" by code_simp
  then have fbefore: "?f1 = (Inr [listed_peer ''1.1.1.1''], snd ?f1)"
    by (metis prod.collapse)
  have fns: "\<not> skipped (sample_peer ''8.8.8.8:10605'')" by code_simp
  have fmiss: "gs_cache (snd ?f1) (strip_port (addr (sample_peer ''8.8.8.8:10605''))) = None"
    by code_simp
  have fans: "failing_fetch (length (gs_calls (snd ?f1)))
                (strip_port (addr (sample_peer ''8.8.8.8:10605''))) = Inl (Thrown ''fetch failed'')"
    by code_simp
  from C6_unsuccessful_lookup [OF fbefore fns fmiss, of "[sample_peer ''8.8.4.4:10605'']" "()" "Inr ()"] fans
  have fres: "fst (overview_handler
          (Inr ([sample_peer ''1.1.1.1:10605''] @ sample_peer ''8.8.8.8:10605'' #
                [sample_peer ''8.8.4.4:10605'']))
          (Inr ()) failing_fetch fresh_geo_state) = Inl (Thrown ''fetch failed'')"
    by simp
  from C6_unsuccessful_lookup [OF qbefore qns qmiss, of "[sample_peer ''8.8.4.4:10605'']" "()" "Inr ()"]
       qans quns
  have "overview_peers quiet_fetch
          ([sample_peer ''1.1.1.1:10605''] @ sample_peer ''9.9.9.9:10605'' #
           [sample_peer ''8.8.4.4:10605'']) [] fresh_geo_state =
        overview_peers quiet_fetch [sample_peer ''8.8.4.4:10605''] [listed_peer ''1.1.1.1'']
          ((snd ?q1)\<lparr>gs_calls := gs_calls (snd ?q1) @
             [strip_port (addr (sample_peer ''9.9.9.9:10605''))]\<rparr>)"
    by blast
  with qacc qns qmiss qans quns qres qcache facc fns fmiss fans fres show ?thesis by blast
qed

end
